theory Spec2Isabelle
  imports Main "HOL-Library.Sublist"
begin

section \<open>Python values and strings\<close>

text \<open>
  The program is \<^verbatim>\<open>warehouseback.py\<close>: five request handlers under \<^verbatim>\<open>/api\<close> over one
  workbook file (and three that serve static pages, left out). The answer of a handler
  is the value that \<^verbatim>\<open>jsonify\<close> takes from it, or the exception that its
  \<^verbatim>\<open>except Exception\<close> clause turns into an answer of status 500; the exception
  may come from openpyxl or from \<^verbatim>\<open>jsonify\<close> itself.

  A Python \<^verbatim>\<open>str\<close> is the list of its code points, and \<open>asc\<close> gives the \<^verbatim>\<open>str\<close> of
  an ASCII literal. The fixed keys of the JSON objects that the handlers build stay
  HOL strings.
\<close>

type_synonym pystr = "nat list"

definition asc :: "string \<Rightarrow> pystr" where
  "asc s = map of_char s"

datatype py_error =
  FileNotFoundError | SheetNotFound | KeyError | ValueError | IndexError
  | IllegalCharacterError | TypeError

text \<open>
  The value of a worksheet cell as openpyxl hands it out: \<^verbatim>\<open>None\<close>, a \<^verbatim>\<open>str\<close>, an
  \<^verbatim>\<open>int\<close>, a \<^verbatim>\<open>bool\<close>, a \<^verbatim>\<open>float\<close> (kept as the text \<^verbatim>\<open>str()\<close> gives for it and
  the integer it is equal to, if there is one), or another object such as a datetime
  (kept as its text and its truth value).
\<close>

datatype cell =
  CNone | CStr pystr | CInt int | CBool bool | CFloat pystr "int option" | COther pystr bool

definition NL :: nat where
  "NL = 10"


text \<open>
  The white space of \<^verbatim>\<open>str.strip()\<close> and \<^verbatim>\<open>str.isspace()\<close>: U+0009 to U+000D, U+001C to
  U+0020, U+0085, U+00A0, U+1680, U+2000 to U+200A, U+2028, U+2029, U+202F, U+205F and
  U+3000.
\<close>

definition is_space :: "nat \<Rightarrow> bool" where
  "is_space c =
     ((0x09 \<le> c \<and> c \<le> 0x0D) \<or> (0x1C \<le> c \<and> c \<le> 0x20) \<or> c = 0x85 \<or> c = 0xA0
      \<or> c = 0x1680 \<or> (0x2000 \<le> c \<and> c \<le> 0x200A) \<or> c = 0x2028 \<or> c = 0x2029
      \<or> c = 0x202F \<or> c = 0x205F \<or> c = 0x3000)"

definition strip :: "pystr \<Rightarrow> pystr" where
  "strip s = rev (dropWhile is_space (rev (dropWhile is_space s)))"

text \<open>
  \<^verbatim>\<open>str.lower()\<close>. On a text of ASCII characters it turns A to Z into a to z. For any
  other text it follows the case tables of Unicode, which are not part of the program:
  they are the parameter \<open>ul\<close>, the lower case of such a text.
\<close>

definition lower_ascii :: "nat \<Rightarrow> nat" where
  "lower_ascii c = (if 65 \<le> c \<and> c \<le> 90 then c + 32 else c)"

definition lower :: "(pystr \<Rightarrow> pystr) \<Rightarrow> pystr \<Rightarrow> pystr" where
  "lower ul s = (if \<forall>c \<in> set s. c < 128 then map lower_ascii s else ul s)"

definition startswith :: "pystr \<Rightarrow> pystr \<Rightarrow> bool" where
  "startswith s p = prefix p s"

text \<open>\<^verbatim>\<open>s.split(sep)\<close> for a separator of one character.\<close>

fun split :: "nat \<Rightarrow> pystr \<Rightarrow> pystr list" where
  "split sep [] = [[]]"
| "split sep (c # cs) =
     (if c = sep then [] # split sep cs
      else (case split sep cs of [] \<Rightarrow> [[c]] | w # ws \<Rightarrow> (c # w) # ws))"

text \<open>\<^verbatim>\<open>str(n)\<close> for an integer: decimal digits, with a minus sign below zero.\<close>

definition digit_char :: "nat \<Rightarrow> nat" where
  "digit_char d = 48 + d"

fun digits_rev :: "nat \<Rightarrow> pystr" where
  "digits_rev n = (if n < 10 then [digit_char n]
                   else digit_char (n mod 10) # digits_rev (n div 10))"

declare digits_rev.simps [simp del]

definition str_nat :: "nat \<Rightarrow> pystr" where
  "str_nat n = rev (digits_rev n)"

definition str_int :: "int \<Rightarrow> pystr" where
  "str_int i = (if i < 0 then 45 # str_nat (nat (- i)) else str_nat (nat i))"

text \<open>
  \<^verbatim>\<open>int(s)\<close>: white space around the text is dropped, one sign may lead, and single
  underscores may stand between digits. Anything else raises ValueError. A digit is 0 to
  9 or any other decimal digit of Unicode; the value of a digit outside ASCII comes from
  the tables of Unicode, the parameter \<open>ud\<close>. Python also raises ValueError for a number
  of more than 4300 digits (the default of \<^verbatim>\<open>sys.get_int_max_str_digits()\<close>); signs and
  underscores do not count, and in a text that \<^verbatim>\<open>int\<close> reads every other character is a
  digit.
\<close>

definition max_str_digits :: nat where
  "max_str_digits = 4300"

definition digit_count :: "pystr \<Rightarrow> nat" where
  "digit_count s = length (filter (\<lambda>c. c \<noteq> 45 \<and> c \<noteq> 43 \<and> c \<noteq> 95) s)"

definition dig :: "(nat \<Rightarrow> nat option) \<Rightarrow> nat \<Rightarrow> nat option" where
  "dig ud c = (if 48 \<le> c \<and> c \<le> 57 then Some (c - 48)
               else if c < 128 then None else ud c)"

fun parse_digits :: "(nat \<Rightarrow> nat option) \<Rightarrow> pystr \<Rightarrow> nat \<Rightarrow> nat option" where
  "parse_digits ud [] acc = Some acc"
| "parse_digits ud (c # cs) acc =
     (case dig ud c of
        Some v \<Rightarrow> parse_digits ud cs (10 * acc + v)
      | None \<Rightarrow>
          if c = 95 then
            (case cs of
               [] \<Rightarrow> None
             | d # ds \<Rightarrow>
                 (case dig ud d of
                    Some v \<Rightarrow> parse_digits ud ds (10 * acc + v)
                  | None \<Rightarrow> None))
          else None)"

definition parse_nat :: "(nat \<Rightarrow> nat option) \<Rightarrow> pystr \<Rightarrow> nat option" where
  "parse_nat ud s =
     (case s of
        [] \<Rightarrow> None
      | c # cs \<Rightarrow> (case dig ud c of Some v \<Rightarrow> parse_digits ud cs v | None \<Rightarrow> None))"

definition py_int :: "(nat \<Rightarrow> nat option) \<Rightarrow> pystr \<Rightarrow> py_error + int" where
  "py_int ud s =
     (case strip s of
        [] \<Rightarrow> Inl ValueError
      | c # cs \<Rightarrow>
          if max_str_digits < digit_count (c # cs) then Inl ValueError
          else if c = 45 then
            (case parse_nat ud cs of None \<Rightarrow> Inl ValueError | Some n \<Rightarrow> Inr (- int n))
          else if c = 43 then
            (case parse_nat ud cs of None \<Rightarrow> Inl ValueError | Some n \<Rightarrow> Inr (int n))
          else
            (case parse_nat ud (c # cs) of None \<Rightarrow> Inl ValueError | Some n \<Rightarrow> Inr (int n)))"

fun truthy :: "cell \<Rightarrow> bool" where
  "truthy CNone = False"
| "truthy (CStr s) = (s \<noteq> [])"
| "truthy (CInt i) = (i \<noteq> 0)"
| "truthy (CBool b) = b"
| "truthy (CFloat s v) = (v \<noteq> Some 0)"
| "truthy (COther s b) = b"

fun str_cell :: "cell \<Rightarrow> pystr" where
  "str_cell CNone = asc ''None''"
| "str_cell (CStr s) = s"
| "str_cell (CInt i) = str_int i"
| "str_cell (CBool b) = (if b then asc ''True'' else asc ''False'')"
| "str_cell (CFloat s v) = s"
| "str_cell (COther s b) = s"

text \<open>A value of \<^verbatim>\<open>form_data.get(key)\<close> inside an f-string: a missing field prints as None.\<close>

fun fstr :: "pystr option \<Rightarrow> pystr" where
  "fstr None = asc ''None''"
| "fstr (Some s) = s"

text \<open>The same value as an element of a row.\<close>

fun opt_cell :: "pystr option \<Rightarrow> cell" where
  "opt_cell None = CNone"
| "opt_cell (Some s) = CStr s"

text \<open>\<^verbatim>\<open>d.get(key, '')\<close> on a dictionary of strings.\<close>

definition get_or_empty :: "(pystr \<rightharpoonup> pystr) \<Rightarrow> pystr \<Rightarrow> pystr" where
  "get_or_empty d k = (case d k of None \<Rightarrow> [] | Some v \<Rightarrow> v)"

section \<open>Labels of the source\<close>

text \<open>
  The form fields of \<^verbatim>\<open>submit_data\<close> and the headers that the handlers look for, by
  their code points, in the order of the source.
\<close>

definition KEY_DATE :: pystr where
  "KEY_DATE = [0x65E5, 0x671F]"

definition KEY_MATERIAL :: pystr where
  "KEY_MATERIAL = [0x8F38, 0x5165, 0x539F, 0x7269, 0x6599]"

definition KEY_VENDOR :: pystr where
  "KEY_VENDOR = [0x5EE0, 0x5546, 0x540D, 0x7A31]"

definition KEY_DRYNESS :: pystr where
  "KEY_DRYNESS = [0x4E7E, 0x71E5, 0x5EA6]"

definition KEY_GRADE :: pystr where
  "KEY_GRADE = [0x7B49, 0x7D1A]"

definition KEY_BIN :: pystr where
  "KEY_BIN = [0x6599, 0x6876]"

definition KEY_WEIGHT :: pystr where
  "KEY_WEIGHT = [0x7E3D, 0x91CD]"

definition KEY_CAPACITY :: pystr where
  "KEY_CAPACITY = [0x5BB9, 0x91CF]"

definition KEY_RATE :: pystr where
  "KEY_RATE = [0x521D, 0x4F30, 0x78BE, 0x7C73, 0x7387]"

definition KEY_NOTE :: pystr where
  "KEY_NOTE = [0x5099, 0x8A3B]"

definition HDR_CUSTOMER_ID :: pystr where
  "HDR_CUSTOMER_ID = [0x5BA2, 0x6236, 0x7DE8, 0x865F]"

definition HDR_CUSTOMER_NAME :: pystr where
  "HDR_CUSTOMER_NAME = [0x5BA2, 0x6236, 0x540D, 0x7A31]"

definition HDR_CUSTOMER_PHONE :: pystr where
  "HDR_CUSTOMER_PHONE = [0x5BA2, 0x6236, 0x96FB, 0x8A71]"

definition HDR_ADDRESS :: pystr where
  "HDR_ADDRESS = [0x9001, 0x8CA8, 0x5730, 0x5740]"

definition HDR_GOODS_NAME :: pystr where
  "HDR_GOODS_NAME = [0x54C1, 0x540D]"

definition HDR_GOODS_SPEC :: pystr where
  "HDR_GOODS_SPEC = [0x898F, 0x683C]"

definition HDR_GOODS_STOCK :: pystr where
  "HDR_GOODS_STOCK = [0x5EAB, 0x5B58]"

definition HDR_PRICING_UNIT :: pystr where
  "HDR_PRICING_UNIT = [0x8A08, 0x50F9, 0x55AE, 0x4F4D]"

definition HDR_SALES_METHOD :: pystr where
  "HDR_SALES_METHOD = [0x92B7, 0x552E, 0x65B9, 0x5F0F]"

definition HDR_CREATOR :: pystr where
  "HDR_CREATOR = [0x88FD, 0x55AE, 0x4EBA, 0x54E1]"

definition HDR_DELIVERY :: pystr where
  "HDR_DELIVERY = [0x9001, 0x8CA8, 0x54E1]"

definition HDR_CAR_NUMBER :: pystr where
  "HDR_CAR_NUMBER = [0x8ECA, 0x865F]"
definition MAP_SHEET_NAME :: pystr where
  "MAP_SHEET_NAME = asc ''map''"

definition OPTIONS_SHEET_NAME :: pystr where
  "OPTIONS_SHEET_NAME = asc ''rowdown''"

definition DATA_SHEET_NAME :: pystr where
  "DATA_SHEET_NAME = asc ''test''"

definition CUSTOMER_SHEET_NAME :: pystr where
  "CUSTOMER_SHEET_NAME = asc ''sale_sheet_data''"

definition GOODS_SHEET_NAME :: pystr where
  "GOODS_SHEET_NAME = asc ''goods_sheet''"

definition SALE_ROWDOWN_NAME :: pystr where
  "SALE_ROWDOWN_NAME = asc ''rowdown_order''"

definition HEADER_TO_JSON_KEY :: "(pystr \<times> string) list" where
  "HEADER_TO_JSON_KEY =
     [(HDR_PRICING_UNIT, ''pricingUnits''),
      (HDR_SALES_METHOD, ''salesMethods''),
      (HDR_CREATOR, ''creatorNames''),
      (HDR_DELIVERY, ''deliveryPeople''),
      (HDR_CAR_NUMBER, ''carNumbers'')]"

section \<open>Worksheets and the workbook file\<close>

text \<open>
  A worksheet of openpyxl is a sparse table of cells addressed by row and column, both
  counted from 1. It is modelled as the list of its rows, row \<open>i\<close> being the list of the
  cells of that row up to its last one; a cell beyond the end of its row, or in a row
  beyond the last, does not exist and reads as \<^verbatim>\<open>None\<close>. A sheet without any cell is
  the empty list. A workbook is held as \<^verbatim>\<open>load_workbook\<close> gives it from the file.
\<close>

type_synonym sheet = "cell list list"

type_synonym workbook = "pystr \<rightharpoonup> sheet"

text \<open>\<^verbatim>\<open>ws.max_row\<close> and \<^verbatim>\<open>ws.max_column\<close>: 1 on a sheet without cells.\<close>

definition max_row :: "sheet \<Rightarrow> nat" where
  "max_row ws = (if ws = [] then 1 else length ws)"

definition max_column :: "sheet \<Rightarrow> nat" where
  "max_column ws = foldr (\<lambda>row m. max (length row) m) ws 1"

text \<open>\<^verbatim>\<open>ws.cell(row, col).value\<close> for \<open>row\<close> and \<open>col\<close> from 1.\<close>

definition cell_value :: "sheet \<Rightarrow> nat \<Rightarrow> nat \<Rightarrow> cell" where
  "cell_value ws row col =
     (if 1 \<le> row \<and> row \<le> length ws \<and> 1 \<le> col \<and> col \<le> length (ws ! (row - 1))
      then ws ! (row - 1) ! (col - 1) else CNone)"

definition pad :: "nat \<Rightarrow> 'a \<Rightarrow> 'a list \<Rightarrow> 'a list" where
  "pad n x xs = xs @ replicate (n - length xs) x"

text \<open>The cells of one row as openpyxl iterates them: columns 1 to \<^verbatim>\<open>max_column\<close>.\<close>

definition row_cells :: "sheet \<Rightarrow> cell list \<Rightarrow> cell list" where
  "row_cells ws row = pad (max_column ws) CNone row"

text \<open>\<^verbatim>\<open>list(ws.values)\<close>: nothing on a sheet without cells, else every row from 1.\<close>

definition ws_values :: "sheet \<Rightarrow> cell list list" where
  "ws_values ws = (if ws = [] then [] else map (row_cells ws) ws)"

text \<open>\<^verbatim>\<open>ws[1]\<close>: the cells of the first row.\<close>

definition ws_row1 :: "sheet \<Rightarrow> cell list" where
  "ws_row1 ws = row_cells ws (case ws of [] \<Rightarrow> [] | row # rows \<Rightarrow> row)"

text \<open>\<^verbatim>\<open>ws.iter_rows(min_row=2)\<close>: the rows from the second to \<^verbatim>\<open>max_row\<close>.\<close>

definition iter_rows_min2 :: "sheet \<Rightarrow> cell list list" where
  "iter_rows_min2 ws = map (row_cells ws) (tl ws)"

text \<open>
  What a cell keeps of a value it is given. openpyxl cuts a text after 32767 characters
  and then raises IllegalCharacterError if a control character other than tab, line feed
  and carriage return is left in it. The file is XML: when it is read again, a
  carriage return followed by a line feed, and any other carriage return, has become a
  line feed. The model keeps a text in a cell as the file will give it back.
\<close>

definition illegal_char :: "nat \<Rightarrow> bool" where
  "illegal_char c = (c \<le> 8 \<or> c = 11 \<or> c = 12 \<or> (14 \<le> c \<and> c \<le> 31))"

definition check_string :: "pystr \<Rightarrow> py_error + pystr" where
  "check_string s =
     (let v = take 32767 s
      in if list_ex illegal_char v then Inl IllegalCharacterError else Inr v)"

fun eol :: "pystr \<Rightarrow> pystr" where
  "eol [] = []"
| "eol [c] = [if c = 13 then 10 else c]"
| "eol (c # d # cs) =
     (if c = 13 \<and> d = 10 then 10 # eol cs
      else if c = 13 then 10 # eol (d # cs)
      else c # eol (d # cs))"

fun bind_value :: "cell \<Rightarrow> py_error + cell" where
  "bind_value (CStr s) =
     (case check_string s of Inl e \<Rightarrow> Inl e | Inr v \<Rightarrow> Inr (CStr (eol v)))"
| "bind_value v = Inr v"

text \<open>
  \<^verbatim>\<open>ws.append(row)\<close> on a sheet as loaded: the values go, one cell after the other, to
  the row after the last one that has a cell; the first value that openpyxl refuses ends
  the call. The cells of value \<^verbatim>\<open>None\<close> are not written to the file, so the row ends
  with its last value that is not \<^verbatim>\<open>None\<close>.
\<close>

fun bind_row :: "cell list \<Rightarrow> py_error + cell list" where
  "bind_row [] = Inr []"
| "bind_row (v # vs) =
     (case bind_value v of
        Inl e \<Rightarrow> Inl e
      | Inr v' \<Rightarrow> (case bind_row vs of Inl e \<Rightarrow> Inl e | Inr vs' \<Rightarrow> Inr (v' # vs')))"

definition stored_row :: "cell list \<Rightarrow> py_error + cell list" where
  "stored_row row =
     (case bind_row row of
        Inl e \<Rightarrow> Inl e
      | Inr vs \<Rightarrow> Inr (rev (dropWhile (\<lambda>v. v = CNone) (rev vs))))"

definition ws_append :: "sheet \<Rightarrow> cell list \<Rightarrow> py_error + sheet" where
  "ws_append ws new_row =
     (case stored_row new_row of Inl e \<Rightarrow> Inl e | Inr cells \<Rightarrow> Inr (ws @ [cells]))"

text \<open>
  \<^verbatim>\<open>ws.cell(row=r, column=c, value=v)\<close>: openpyxl raises ValueError for a row or a column
  below 1 and for a row above 1048576, creates the cell where there is none, and gives
  it the value, which it may refuse. A column is not bounded here.
\<close>

definition set_cell :: "sheet \<Rightarrow> nat \<Rightarrow> nat \<Rightarrow> cell \<Rightarrow> sheet" where
  "set_cell ws row col v =
     (let rows = pad row [] ws;
          cells = pad col CNone (rows ! (row - 1))
      in rows[row - 1 := cells[col - 1 := v]])"

definition ws_cell_write :: "sheet \<Rightarrow> int \<Rightarrow> int \<Rightarrow> cell \<Rightarrow> py_error + sheet" where
  "ws_cell_write ws row col v =
     (if row < 1 \<or> col < 1 then Inl ValueError
      else if 1048576 < row then Inl ValueError
      else
        (case bind_value v of
           Inl e \<Rightarrow> Inl e
         | Inr v' \<Rightarrow> Inr (set_cell ws (nat row) (nat col) v')))"

text \<open>
  The file: absent or unreadable (\<open>None\<close>), or the workbook it holds.
  \<^verbatim>\<open>load_workbook\<close> raises on the first, and \<^verbatim>\<open>wb[name]\<close> raises KeyError for a sheet that
  is not there.
\<close>

definition load_workbook :: "workbook option \<Rightarrow> py_error + workbook" where
  "load_workbook file = (case file of None \<Rightarrow> Inl FileNotFoundError | Some wb \<Rightarrow> Inr wb)"

definition wb_get :: "workbook \<Rightarrow> pystr \<Rightarrow> py_error + sheet" where
  "wb_get wb name = (case wb name of None \<Rightarrow> Inl KeyError | Some ws \<Rightarrow> Inr ws)"

section \<open>get\_customers\<close>

type_synonym args = "pystr \<rightharpoonup> pystr"

type_synonym entry = "(string \<times> pystr) list"

text \<open>\<^verbatim>\<open>request.args.get(name, '').strip().lower()\<close> (lines 90 to 93).\<close>

definition query_arg :: "(pystr \<Rightarrow> pystr) \<Rightarrow> args \<Rightarrow> pystr \<Rightarrow> pystr" where
  "query_arg ul request_args name = lower ul (strip (get_or_empty request_args name))"

text \<open>\<^verbatim>\<open>str(cell.value or '').strip()\<close> (line 123).\<close>

definition str_or_empty :: "cell \<Rightarrow> pystr" where
  "str_or_empty v = strip (if truthy v then str_cell v else [])"

text \<open>
  The dictionary \<^verbatim>\<open>customer_info\<close> (lines 125 to 128): one assignment for each header,
  in order, so the last of two equal headers stays.
\<close>

definition customer_info :: "pystr list \<Rightarrow> pystr list \<Rightarrow> (pystr \<rightharpoonup> pystr)" where
  "customer_info headers row_data =
     fold (\<lambda>(i, header) info. info(header \<mapsto> (if i < length row_data then row_data ! i else [])))
          (enumerate 0 headers) Map.empty"

text \<open>The four tests on \<^verbatim>\<open>is_match\<close>, one after the other (lines 130 to 152).\<close>

definition is_match ::
  "(pystr \<Rightarrow> pystr) \<Rightarrow> pystr \<Rightarrow> pystr \<Rightarrow> pystr \<Rightarrow> pystr \<Rightarrow> (pystr \<rightharpoonup> pystr) \<Rightarrow> bool" where
  "is_match ul id_query name_query phone_query address_query info =
     (let m0 = False;
          id_val = lower ul (get_or_empty info HDR_CUSTOMER_ID);
          m1 = (if id_query \<noteq> [] \<and> id_val \<noteq> [] \<and> startswith id_val id_query
                then True else m0);
          name_val = lower ul (get_or_empty info HDR_CUSTOMER_NAME);
          m2 = (if \<not> m1 \<and> name_query \<noteq> [] \<and> name_val \<noteq> [] \<and> startswith name_val name_query
                then True else m1);
          phone_val = lower ul (get_or_empty info HDR_CUSTOMER_PHONE);
          m3 = (if \<not> m2 \<and> phone_query \<noteq> [] \<and> phone_val \<noteq> []
                   \<and> startswith phone_val phone_query
                then True else m2);
          address_val = lower ul (get_or_empty info HDR_ADDRESS);
          m4 = (if \<not> m3 \<and> address_query \<noteq> [] \<and> address_val \<noteq> []
                   \<and> startswith address_val address_query
                then True else m3)
      in m4)"

definition formatted_customer :: "(pystr \<rightharpoonup> pystr) \<Rightarrow> entry" where
  "formatted_customer info =
     [(''id'', get_or_empty info HDR_CUSTOMER_ID),
      (''name'', get_or_empty info HDR_CUSTOMER_NAME),
      (''phone'', get_or_empty info HDR_CUSTOMER_PHONE),
      (''address'', get_or_empty info HDR_ADDRESS)]"

text \<open>The loop over the data rows (lines 121 to 162), \<^verbatim>\<open>customers\<close> being the list built.\<close>

fun customers_loop ::
  "(pystr \<Rightarrow> pystr) \<Rightarrow> pystr \<Rightarrow> pystr \<Rightarrow> pystr \<Rightarrow> pystr \<Rightarrow> pystr list \<Rightarrow> cell list list
     \<Rightarrow> entry list \<Rightarrow> entry list" where
  "customers_loop ul iq nq pq aq headers [] customers = customers"
| "customers_loop ul iq nq pq aq headers (row # rows) customers =
     (let row_data = map str_or_empty row;
          info = customer_info headers row_data
      in if is_match ul iq nq pq aq info
         then customers_loop ul iq nq pq aq headers rows (customers @ [formatted_customer info])
         else customers_loop ul iq nq pq aq headers rows customers)"

text \<open>
  The dictionary \<^verbatim>\<open>header_map\<close> of lines 110 to 118 is written and never read, and is
  left out.
\<close>

definition get_customers ::
  "(pystr \<Rightarrow> pystr) \<Rightarrow> args \<Rightarrow> workbook option \<Rightarrow> py_error + entry list" where
  "get_customers ul request_args file =
     (let id_query = query_arg ul request_args (asc ''id_query'');
          name_query = query_arg ul request_args (asc ''name_query'');
          phone_query = query_arg ul request_args (asc ''phone_query'');
          address_query = query_arg ul request_args (asc ''address_query'')
      in if \<not> (id_query \<noteq> [] \<or> name_query \<noteq> [] \<or> phone_query \<noteq> [] \<or> address_query \<noteq> [])
         then Inr []
         else
           (case load_workbook file of
              Inl e \<Rightarrow> Inl e
            | Inr wb \<Rightarrow>
                (case wb_get wb CUSTOMER_SHEET_NAME of
                   Inl e \<Rightarrow> Inl e
                 | Inr customer_sheet \<Rightarrow>
                     (let headers = map str_cell (ws_row1 customer_sheet)
                      in Inr (customers_loop ul id_query name_query phone_query address_query
                                headers (iter_rows_min2 customer_sheet) [])))))"

section \<open>get\_goods\_data\<close>

text \<open>
  The dictionary comprehension of lines 188 and 189: \<^verbatim>\<open>headers[i]\<close> raises IndexError
  when the row has more cells than there are headers.
\<close>

fun row_dict_loop ::
  "pystr list \<Rightarrow> (nat \<times> cell) list \<Rightarrow> (pystr \<rightharpoonup> pystr)
     \<Rightarrow> py_error + (pystr \<rightharpoonup> pystr)" where
  "row_dict_loop headers [] row_dict = Inr row_dict"
| "row_dict_loop headers ((i, v) # rest) row_dict =
     (if i < length headers
      then row_dict_loop headers rest
             (row_dict(headers ! i \<mapsto> (if truthy v then strip (str_cell v) else [])))
      else Inl IndexError)"

definition formatted_item :: "(pystr \<rightharpoonup> pystr) \<Rightarrow> entry" where
  "formatted_item row_dict =
     [(''name'', get_or_empty row_dict HDR_GOODS_NAME),
      (''spec'', get_or_empty row_dict HDR_GOODS_SPEC),
      (''stock'', get_or_empty row_dict HDR_GOODS_STOCK)]"

fun goods_loop :: "pystr list \<Rightarrow> cell list list \<Rightarrow> entry list \<Rightarrow> py_error + entry list" where
  "goods_loop headers [] goods_data = Inr goods_data"
| "goods_loop headers (row # rows) goods_data =
     (case row_dict_loop headers (enumerate 0 row) Map.empty of
        Inl e \<Rightarrow> Inl e
      | Inr row_dict \<Rightarrow> goods_loop headers rows (goods_data @ [formatted_item row_dict]))"

definition get_goods_data :: "workbook option \<Rightarrow> py_error + entry list" where
  "get_goods_data file =
     (case load_workbook file of
        Inl e \<Rightarrow> Inl e
      | Inr wb \<Rightarrow>
          (case wb_get wb GOODS_SHEET_NAME of
             Inl e \<Rightarrow> Inl e
           | Inr goods_sheet \<Rightarrow>
               (let headers = map (\<lambda>v. strip (str_cell v)) (filter truthy (ws_row1 goods_sheet))
                in goods_loop headers (iter_rows_min2 goods_sheet) [])))"

section \<open>The lookup lists: get\_rowdown\_data and the first half of get\_data\<close>

text \<open>
  The loop over \<^verbatim>\<open>options_data_rows\<close> for one column (lines 252 to 260 and 296 to 301),
  with its two variables \<^verbatim>\<open>options_list\<close> and \<^verbatim>\<open>seen_options\<close>.
\<close>

fun options_loop :: "nat \<Rightarrow> cell list list \<Rightarrow> pystr list \<Rightarrow> pystr set \<Rightarrow> pystr list" where
  "options_loop col_index [] options_list seen_options = options_list"
| "options_loop col_index (row # rows) options_list seen_options =
     (if length row > col_index \<and> row ! col_index \<noteq> CNone then
        (let v = strip (str_cell (row ! col_index))
         in if v \<noteq> [] \<and> v \<notin> seen_options
            then options_loop col_index rows (options_list @ [v]) (insert v seen_options)
            else options_loop col_index rows options_list seen_options)
      else options_loop col_index rows options_list seen_options)"

definition column_options :: "nat \<Rightarrow> cell list list \<Rightarrow> pystr list" where
  "column_options col_index options_data_rows = options_loop col_index options_data_rows [] {}"

text \<open>
  The lookup list in the words of the specification, to compare with the loop above: the
  values of the column, as trimmed text, without the blank ones, each kept where it is
  seen first.
\<close>

fun first_seen :: "pystr list \<Rightarrow> pystr list" where
  "first_seen [] = []"
| "first_seen (x # xs) = x # first_seen (filter (\<lambda>y. y \<noteq> x) xs)"

definition column_values :: "nat \<Rightarrow> cell list list \<Rightarrow> pystr list" where
  "column_values col_index options_data_rows =
     map (\<lambda>row. strip (str_cell (row ! col_index)))
         (filter (\<lambda>row. length row > col_index \<and> row ! col_index \<noteq> CNone) options_data_rows)"

definition spec_lookup_list :: "nat \<Rightarrow> cell list list \<Rightarrow> pystr list" where
  "spec_lookup_list col_index options_data_rows =
     first_seen (filter (\<lambda>v. v \<noteq> []) (column_values col_index options_data_rows))"

text \<open>The header test of line 244 and the key it gives.\<close>

fun json_key :: "cell \<Rightarrow> string option" where
  "json_key (CStr header) = map_of HEADER_TO_JSON_KEY header"
| "json_key other = None"

definition lookup_data_of :: "cell list list \<Rightarrow> (string \<rightharpoonup> pystr list)" where
  "lookup_data_of options_values =
     (case options_values of
        [] \<Rightarrow> Map.empty
      | options_header # options_data_rows \<Rightarrow>
          fold (\<lambda>(col_index, header) lookup_data.
                  case json_key header of
                    None \<Rightarrow> lookup_data
                  | Some k \<Rightarrow> lookup_data(k \<mapsto> column_options col_index options_data_rows))
               (enumerate 0 options_header) Map.empty)"

definition get_rowdown_data :: "workbook option \<Rightarrow> py_error + (string \<rightharpoonup> pystr list)" where
  "get_rowdown_data file =
     (case load_workbook file of
        Inl e \<Rightarrow> Inl e
      | Inr wb \<Rightarrow>
          (case wb SALE_ROWDOWN_NAME of
             None \<Rightarrow> Inl SheetNotFound
           | Some options_sheet \<Rightarrow> Inr (lookup_data_of (ws_values options_sheet))))"

text \<open>
  In \<^verbatim>\<open>get_data\<close> the header itself is the key (line 302). Python takes equal numbers
  for one key (\<^verbatim>\<open>True\<close>, \<^verbatim>\<open>1\<close> and \<^verbatim>\<open>1.0\<close>), which \<open>dict_key\<close> follows; it keeps apart
  the other values.
\<close>

fun dict_key :: "cell \<Rightarrow> cell" where
  "dict_key (CBool b) = CInt (if b then 1 else 0)"
| "dict_key (CFloat s (Some i)) = CInt i"
| "dict_key header = header"

definition dropdown_options_of :: "cell list list \<Rightarrow> (cell \<rightharpoonup> pystr list)" where
  "dropdown_options_of options_values =
     (case options_values of
        [] \<Rightarrow> Map.empty
      | options_header # options_data_rows \<Rightarrow>
          fold (\<lambda>(col_index, header) dropdown_options.
                  if truthy header
                  then dropdown_options(dict_key header \<mapsto>
                         column_options col_index options_data_rows)
                  else dropdown_options)
               (enumerate 0 options_header) Map.empty)"

text \<open>
  \<^verbatim>\<open>jsonify\<close> (line 328) sorts the keys of a dictionary and writes them as JSON names.
  It raises TypeError, inside the \<^verbatim>\<open>try\<close> of the handler, unless the keys of
  \<^verbatim>\<open>dropdown_options\<close> are all strings or all numbers. The keys are the headers that pass
  the test of line 293.
\<close>

definition dropdown_keys :: "cell list list \<Rightarrow> cell list" where
  "dropdown_keys options_values =
     (case options_values of
        [] \<Rightarrow> []
      | options_header # options_data_rows \<Rightarrow> map dict_key (filter truthy options_header))"

fun is_str_key :: "cell \<Rightarrow> bool" where
  "is_str_key (CStr s) = True"
| "is_str_key other = False"

fun is_number_key :: "cell \<Rightarrow> bool" where
  "is_number_key (CInt i) = True"
| "is_number_key (CBool b) = True"
| "is_number_key (CFloat s v) = True"
| "is_number_key other = False"

definition json_keys_ok :: "cell list \<Rightarrow> bool" where
  "json_keys_ok keys = (list_all is_str_key keys \<or> list_all is_number_key keys)"

section \<open>The bin map: the second half of get\_data\<close>

text \<open>The f-string of line 309: the column first.\<close>

definition position_name :: "nat \<Rightarrow> nat \<Rightarrow> pystr" where
  "position_name col row = str_nat col @ [45] @ str_nat row"

definition line_or_empty :: "pystr list \<Rightarrow> nat \<Rightarrow> pystr" where
  "line_or_empty lines i = (if length lines > i then lines ! i else [])"

text \<open>The body of the inner loop (lines 311 to 326).\<close>

fun bin_entry :: "pystr \<Rightarrow> cell \<Rightarrow> entry" where
  "bin_entry pos (CStr val) =
     (if val \<noteq> [] then
        (let lines = split NL val in
           [(''positionName'', pos),
            (''binName'', line_or_empty lines 0),
            (''item'', line_or_empty lines 1),
            (''date'', line_or_empty lines 2),
            (''vendor'', line_or_empty lines 3),
            (''binValue'', val)])
      else
        [(''positionName'', pos), (''binName'', []), (''binValue'', [])])"
| "bin_entry pos other =
     [(''positionName'', pos), (''binName'', []), (''binValue'', [])]"

text \<open>The two loops of lines 306 and 307: rows outside, columns inside.\<close>

definition bin_map_data :: "sheet \<Rightarrow> entry list" where
  "bin_map_data map_sheet =
     concat (map (\<lambda>row. map (\<lambda>col. bin_entry (position_name col row)
                                     (cell_value map_sheet row col))
                             [1 ..< Suc (max_column map_sheet)])
                 [1 ..< Suc (max_row map_sheet)])"

record get_data_result =
  dropdownOptions :: "cell \<rightharpoonup> pystr list"
  binMapData :: "entry list"

definition get_data :: "workbook option \<Rightarrow> py_error + get_data_result" where
  "get_data file =
     (case load_workbook file of
        Inl e \<Rightarrow> Inl e
      | Inr wb \<Rightarrow>
          (case wb_get wb OPTIONS_SHEET_NAME of
             Inl e \<Rightarrow> Inl e
           | Inr options_sheet \<Rightarrow>
               (let dropdown_options = dropdown_options_of (ws_values options_sheet)
                in case wb_get wb MAP_SHEET_NAME of
                     Inl e \<Rightarrow> Inl e
                   | Inr map_sheet \<Rightarrow>
                       (let bin_map = bin_map_data map_sheet
                        in if json_keys_ok (dropdown_keys (ws_values options_sheet))
                           then Inr \<lparr>dropdownOptions = dropdown_options,
                                     binMapData = bin_map\<rparr>
                           else Inl TypeError))))"

section \<open>submit\_data\<close>

type_synonym form = "pystr \<rightharpoonup> pystr"

text \<open>
  The row for the ledger (lines 349 to 361); \<open>timestamp\<close> is the text of
  \<^verbatim>\<open>datetime.now()\<close>, the first value of the row.
\<close>

definition new_row :: "form \<Rightarrow> pystr \<Rightarrow> cell list" where
  "new_row form_data timestamp =
     [COther timestamp True,
      opt_cell (form_data KEY_DATE),
      opt_cell (form_data KEY_MATERIAL),
      opt_cell (form_data KEY_VENDOR),
      opt_cell (form_data KEY_DRYNESS),
      opt_cell (form_data KEY_GRADE),
      opt_cell (form_data KEY_BIN),
      opt_cell (form_data KEY_WEIGHT),
      opt_cell (form_data KEY_CAPACITY),
      opt_cell (form_data KEY_RATE),
      opt_cell (form_data KEY_NOTE)]"

text \<open>The f-string of lines 373 to 378: four fields joined by line feeds.\<close>

definition encode :: "pystr \<Rightarrow> pystr \<Rightarrow> pystr \<Rightarrow> pystr \<Rightarrow> pystr" where
  "encode a b c d = a @ [NL] @ b @ [NL] @ c @ [NL] @ d"

definition new_cell_value :: "form \<Rightarrow> pystr" where
  "new_cell_value form_data =
     encode (fstr (form_data KEY_BIN)) (fstr (form_data KEY_MATERIAL))
            (fstr (form_data KEY_DATE)) (fstr (form_data KEY_VENDOR))"

text \<open>
  Line 371: the text is cut at every hyphen and the pieces are read as integers; the
  assignment to two names raises ValueError unless there are exactly two pieces.
\<close>

definition parse_position :: "(nat \<Rightarrow> nat option) \<Rightarrow> pystr \<Rightarrow> py_error + (int \<times> int)" where
  "parse_position ud bin_position =
     (case split 45 bin_position of
        [a, b] \<Rightarrow>
          (case py_int ud a of
             Inl e \<Rightarrow> Inl e
           | Inr col_index \<Rightarrow>
               (case py_int ud b of
                  Inl e \<Rightarrow> Inl e
                | Inr row_index \<Rightarrow> Inr (col_index, row_index)))
      | _ \<Rightarrow> Inl ValueError)"

text \<open>
  The handler changes the workbook object in memory statement by statement and writes
  the file once, at the end. The state holds the file, the object \<^verbatim>\<open>wb\<close> and the local
  variables; each statement is a step that gives the exception it raises, if any, and
  the state it leaves.
\<close>

record state =
  disk :: "workbook option"
  wb :: workbook
  col_index :: int
  row_index :: int
  cell_text :: pystr

type_synonym step = "state \<Rightarrow> py_error option \<times> state"

definition load_step :: step where
  "load_step st =
     (case load_workbook (disk st) of
        Inl e \<Rightarrow> (Some e, st)
      | Inr w \<Rightarrow> (None, st\<lparr>wb := w\<rparr>))"

definition append_step :: "form \<Rightarrow> pystr \<Rightarrow> step" where
  "append_step form_data timestamp st =
     (case wb_get (wb st) DATA_SHEET_NAME of
        Inl e \<Rightarrow> (Some e, st)
      | Inr data_sheet \<Rightarrow>
          (case ws_append data_sheet (new_row form_data timestamp) of
             Inl e \<Rightarrow> (Some e, st)
           | Inr data_sheet' \<Rightarrow> (None, st\<lparr>wb := (wb st)(DATA_SHEET_NAME \<mapsto> data_sheet')\<rparr>)))"

definition position_step :: "(nat \<Rightarrow> nat option) \<Rightarrow> form \<Rightarrow> step" where
  "position_step ud form_data st =
     (case wb_get (wb st) MAP_SHEET_NAME of
        Inl e \<Rightarrow> (Some e, st)
      | Inr map_sheet \<Rightarrow>
          (case form_data (asc ''positionName'') of
             None \<Rightarrow> (Some ValueError, st)
           | Some bin_position \<Rightarrow>
               if bin_position = [] then (Some ValueError, st)
               else
                 (case parse_position ud bin_position of
                    Inl e \<Rightarrow> (Some e, st)
                  | Inr (c, r) \<Rightarrow> (None, st\<lparr>col_index := c, row_index := r\<rparr>))))"

definition encode_step :: "form \<Rightarrow> step" where
  "encode_step form_data st = (None, st\<lparr>cell_text := new_cell_value form_data\<rparr>)"

definition cell_step :: step where
  "cell_step st =
     (case wb_get (wb st) MAP_SHEET_NAME of
        Inl e \<Rightarrow> (Some e, st)
      | Inr map_sheet \<Rightarrow>
          (case ws_cell_write map_sheet (row_index st) (col_index st) (CStr (cell_text st)) of
             Inl e \<Rightarrow> (Some e, st)
           | Inr map_sheet' \<Rightarrow> (None, st\<lparr>wb := (wb st)(MAP_SHEET_NAME \<mapsto> map_sheet')\<rparr>)))"

text \<open>
  \<^verbatim>\<open>wb.save\<close> replaces the file. It cannot name a column above 18278: it then raises
  ValueError after it has begun to write, and the file is lost. A workbook as loaded
  has no such column, and the ledger row has eleven cells, so after the statements of
  the handler only the map sheet can have one.
\<close>

definition save_step :: step where
  "save_step st =
     (case wb st MAP_SHEET_NAME of
        None \<Rightarrow> (None, st\<lparr>disk := Some (wb st)\<rparr>)
      | Some map_sheet \<Rightarrow>
          if 18278 < max_column map_sheet then (Some ValueError, st\<lparr>disk := None\<rparr>)
          else (None, st\<lparr>disk := Some (wb st)\<rparr>))"

definition submit_steps :: "(nat \<Rightarrow> nat option) \<Rightarrow> form \<Rightarrow> pystr \<Rightarrow> step list" where
  "submit_steps ud form_data timestamp =
     [load_step, append_step form_data timestamp, position_step ud form_data,
      encode_step form_data, cell_step, save_step]"

text \<open>Running statements in order: the first exception ends the run.\<close>

fun exec :: "step list \<Rightarrow> state \<Rightarrow> py_error option \<times> state" where
  "exec [] st = (None, st)"
| "exec (f # fs) st = (case f st of (Some e, st') \<Rightarrow> (Some e, st') | (None, st') \<Rightarrow> exec fs st')"

definition init_state :: "workbook option \<Rightarrow> state" where
  "init_state f = \<lparr>disk = f, wb = Map.empty, col_index = 0, row_index = 0, cell_text = []\<rparr>"

text \<open>
  The handler: the answer (\<open>None\<close> for success, else the exception) and the file it leaves.
\<close>

definition submit_data ::
  "(nat \<Rightarrow> nat option) \<Rightarrow> form \<Rightarrow> pystr \<Rightarrow> workbook option
     \<Rightarrow> py_error option \<times> workbook option" where
  "submit_data ud form_data timestamp f =
     (case exec (submit_steps ud form_data timestamp) (init_state f) of
        (r, st) \<Rightarrow> (r, disk st))"

section \<open>Facts about strings and numbers\<close>

lemma split_no_sep: "sep \<notin> set s \<Longrightarrow> split sep s = [s]"
  by (induction s) auto

lemma split_append_sep:
  "sep \<notin> set s \<Longrightarrow> split sep (s @ sep # rest) = s # split sep rest"
  by (induction s) auto

lemma split_encode:
  assumes "NL \<notin> set a" "NL \<notin> set b" "NL \<notin> set c" "NL \<notin> set d"
  shows "split NL (encode a b c d) = [a, b, c, d]"
  using assms by (simp add: encode_def split_append_sep split_no_sep)

lemma dig_digit: "48 \<le> c \<and> c \<le> 57 \<Longrightarrow> dig ud c = Some (c - 48)"
  by (simp add: dig_def)

lemma digit_char_range: "d < 10 \<Longrightarrow> 48 \<le> digit_char d \<and> digit_char d \<le> 57"
  by (simp add: digit_char_def)

lemma digits_rev_range: "c \<in> set (digits_rev n) \<Longrightarrow> 48 \<le> c \<and> c \<le> 57"
proof (induction n rule: digits_rev.induct)
  case (1 n)
  show ?case
  proof (cases "n < 10")
    case True
    with "1.prems" show ?thesis
      by (subst (asm) digits_rev.simps) (simp add: digit_char_def)
  next
    case False
    with "1.prems" "1.IH" show ?thesis
      by (subst (asm) digits_rev.simps) (auto simp: digit_char_def)
  qed
qed

lemma str_nat_range: "c \<in> set (str_nat n) \<Longrightarrow> 48 \<le> c \<and> c \<le> 57"
  by (simp add: str_nat_def digits_rev_range)

lemma digits_rev_value: "foldr (\<lambda>c a. 10 * a + (c - 48)) (digits_rev n) 0 = n"
proof (induction n rule: digits_rev.induct)
  case (1 n)
  show ?case
  proof (cases "n < 10")
    case True
    then show ?thesis
      by (subst digits_rev.simps) (simp add: digit_char_def)
  next
    case False
    with "1.IH" show ?thesis
      by (subst digits_rev.simps) (simp add: digit_char_def)
  qed
qed

lemma parse_digits_all:
  "\<forall>c \<in> set ds. 48 \<le> c \<and> c \<le> 57 \<Longrightarrow>
   parse_digits ud ds acc = Some (fold (\<lambda>c a. 10 * a + (c - 48)) ds acc)"
  by (induction ds arbitrary: acc) (auto simp: dig_def)

lemma str_nat_not_Nil: "str_nat n \<noteq> []"
  unfolding str_nat_def by (subst digits_rev.simps) simp

lemma parse_nat_all:
  assumes "s \<noteq> []" "\<forall>c \<in> set s. 48 \<le> c \<and> c \<le> 57"
  shows "parse_nat ud s = Some (fold (\<lambda>c a. 10 * a + (c - 48)) s 0)"
proof (cases s)
  case Nil
  with assms show ?thesis by simp
next
  case (Cons c cs)
  with assms show ?thesis
    by (simp add: parse_nat_def parse_digits_all dig_def)
qed

lemma parse_nat_str_nat: "parse_nat ud (str_nat n) = Some n"
proof -
  have "parse_nat ud (str_nat n) = Some (fold (\<lambda>c a. 10 * a + (c - 48)) (str_nat n) 0)"
    by (rule parse_nat_all) (auto simp: str_nat_not_Nil dest: str_nat_range)
  also have "fold (\<lambda>c a. 10 * a + (c - 48)) (str_nat n) 0 = n"
    unfolding str_nat_def foldr_conv_fold [symmetric] by (rule digits_rev_value)
  finally show ?thesis .
qed

lemma digit_not_space: "48 \<le> c \<and> c \<le> 57 \<Longrightarrow> \<not> is_space c"
  by (auto simp: is_space_def)

lemma strip_no_space: "\<forall>c \<in> set s. \<not> is_space c \<Longrightarrow> strip s = s"
proof -
  assume a: "\<forall>c \<in> set s. \<not> is_space c"
  have d: "dropWhile is_space t = t" if "\<forall>c \<in> set t. \<not> is_space c" for t
    using that by (cases t) auto
  show ?thesis
    using a by (simp add: strip_def d)
qed

lemma digit_count_digits: "\<forall>c \<in> set s. 48 \<le> c \<and> c \<le> 57 \<Longrightarrow> digit_count s = length s"
  unfolding digit_count_def by (induction s) auto

lemma digit_count_str_nat: "digit_count (str_nat n) = length (str_nat n)"
  by (rule digit_count_digits) (auto dest: str_nat_range)

lemma length_digits_rev: "0 < k \<Longrightarrow> n < 10 ^ k \<Longrightarrow> length (digits_rev n) \<le> k"
proof (induction n arbitrary: k rule: digits_rev.induct)
  case (1 n)
  show ?case
  proof (cases "n < 10")
    case True
    then show ?thesis
      using "1.prems" by (subst digits_rev.simps) simp
  next
    case False
    obtain j where k: "k = Suc j"
      using "1.prems"(1) by (cases k) auto
    have "j \<noteq> 0"
      using False "1.prems"(2) k by (cases j) auto
    moreover have "n div 10 < 10 ^ j"
      using "1.prems"(2) k by (simp add: less_mult_imp_div_less)
    ultimately have "length (digits_rev (n div 10)) \<le> j"
      using False by (intro "1.IH") simp_all
    then show ?thesis
      using False k by (subst digits_rev.simps) simp
  qed
qed

lemma length_str_nat: "0 < k \<Longrightarrow> n < 10 ^ k \<Longrightarrow> length (str_nat n) \<le> k"
  by (simp add: str_nat_def length_digits_rev)

lemma py_int_str_nat_cases:
  "py_int ud (str_nat n) =
     (if max_str_digits < length (str_nat n) then Inl ValueError else Inr (int n))"
proof -
  have s: "strip (str_nat n) = str_nat n"
    by (rule strip_no_space) (auto dest!: str_nat_range simp: is_space_def)
  obtain c cs where e: "str_nat n = c # cs"
    using str_nat_not_Nil [of n] by (cases "str_nat n") auto
  then have "48 \<le> c \<and> c \<le> 57"
    using str_nat_range [of c n] by simp
  then have "c \<noteq> 45" "c \<noteq> 43"
    by auto
  moreover have "py_int ud (str_nat n) =
      (case str_nat n of [] \<Rightarrow> Inl ValueError
       | c # cs \<Rightarrow>
          if max_str_digits < digit_count (c # cs) then Inl ValueError
          else if c = 45 then
            (case parse_nat ud cs of None \<Rightarrow> Inl ValueError | Some n \<Rightarrow> Inr (- int n))
          else if c = 43 then
            (case parse_nat ud cs of None \<Rightarrow> Inl ValueError | Some n \<Rightarrow> Inr (int n))
          else
            (case parse_nat ud (c # cs) of None \<Rightarrow> Inl ValueError | Some n \<Rightarrow> Inr (int n)))"
    by (simp only: py_int_def s)
  moreover have "digit_count (c # cs) = length (str_nat n)"
    using digit_count_str_nat [of n] by (simp only: e)
  ultimately show ?thesis
    using parse_nat_str_nat [of ud n] by (simp add: e)
qed

lemma py_int_str_nat:
  "length (str_nat n) \<le> max_str_digits \<Longrightarrow> py_int ud (str_nat n) = Inr (int n)"
  by (simp add: py_int_str_nat_cases)

lemma hyphen_not_in_str_nat: "45 \<notin> set (str_nat n)"
  using str_nat_range [of 45 n] by auto

lemma split_position_name: "split 45 (position_name c r) = [str_nat c, str_nat r]"
  by (simp add: position_name_def split_append_sep split_no_sep hyphen_not_in_str_nat)

lemma parse_position_name:
  "length (str_nat c) \<le> max_str_digits \<Longrightarrow> length (str_nat r) \<le> max_str_digits \<Longrightarrow>
   parse_position ud (position_name c r) = Inr (int c, int r)"
  by (simp add: parse_position_def split_position_name py_int_str_nat)





lemma position_name_not_Nil: "position_name c r \<noteq> []"
  by (simp add: position_name_def)

lemma parse_position_error: "parse_position ud p = Inl e \<Longrightarrow> e = ValueError"
  by (auto simp: parse_position_def py_int_def split: list.splits sum.splits option.splits if_splits)




section \<open>Claim C1\<close>

text \<open>
  C1. Round trip of the record codec: for strings a, b, c, d without a line feed, the cell
  text that \<^verbatim>\<open>submit_data\<close> builds from the form fields bin, material, date and vendor
  (joined with line feeds, in this order) is decoded by \<^verbatim>\<open>get_data\<close> to the entry with
  binName a, item b, date c and vendor d.
\<close>

theorem C1_codec_round_trip:
  assumes "NL \<notin> set a" "NL \<notin> set b" "NL \<notin> set c" "NL \<notin> set d"
    and "form_data KEY_BIN = Some a" "form_data KEY_MATERIAL = Some b"
    and "form_data KEY_DATE = Some c" "form_data KEY_VENDOR = Some d"
  shows "new_cell_value form_data = a @ [NL] @ b @ [NL] @ c @ [NL] @ d
       \<and> bin_entry p (CStr (new_cell_value form_data)) =
           [(''positionName'', p), (''binName'', a), (''item'', b), (''date'', c),
            (''vendor'', d), (''binValue'', new_cell_value form_data)]"
proof -
  have v: "new_cell_value form_data = encode a b c d"
    using assms by (simp add: new_cell_value_def)
  have ne: "encode a b c d \<noteq> []"
    by (simp add: encode_def)
  have "bin_entry p (CStr (encode a b c d)) =
           [(''positionName'', p), (''binName'', a), (''item'', b), (''date'', c),
            (''vendor'', d), (''binValue'', encode a b c d)]"
    using ne split_encode [OF assms(1-4)] by (simp add: line_or_empty_def)
  then show ?thesis
    by (simp add: v) (simp add: encode_def)
qed

theorem C1_codec_round_trip_witness:
  "NL \<notin> set (asc ''A1'') \<and> NL \<notin> set (asc ''rice'') \<and> NL \<notin> set (asc ''2024-01-02'')
   \<and> NL \<notin> set (asc ''Acme'')
   \<and> bin_entry (asc ''3-5'') (CStr (new_cell_value
         [KEY_BIN \<mapsto> asc ''A1'', KEY_MATERIAL \<mapsto> asc ''rice'',
          KEY_DATE \<mapsto> asc ''2024-01-02'', KEY_VENDOR \<mapsto> asc ''Acme''])) =
       [(''positionName'', asc ''3-5''), (''binName'', asc ''A1''), (''item'', asc ''rice''),
        (''date'', asc ''2024-01-02''), (''vendor'', asc ''Acme''),
        (''binValue'', asc ''A1'' @ [10] @ asc ''rice'' @ [10] @ asc ''2024-01-02'' @ [10]
                       @ asc ''Acme'')]"
proof -
  let ?f = "[KEY_BIN \<mapsto> asc ''A1'', KEY_MATERIAL \<mapsto> asc ''rice'',
          KEY_DATE \<mapsto> asc ''2024-01-02'', KEY_VENDOR \<mapsto> asc ''Acme'']"
  have n: "NL \<notin> set (asc ''A1'')" "NL \<notin> set (asc ''rice'')"
    "NL \<notin> set (asc ''2024-01-02'')" "NL \<notin> set (asc ''Acme'')"
    by (simp_all add: NL_def asc_def)
  have f: "?f KEY_BIN = Some (asc ''A1'')" "?f KEY_MATERIAL = Some (asc ''rice'')"
    "?f KEY_DATE = Some (asc ''2024-01-02'')" "?f KEY_VENDOR = Some (asc ''Acme'')"
    by (simp_all add: KEY_BIN_def KEY_MATERIAL_def KEY_DATE_def KEY_VENDOR_def)
  let ?v = "asc ''A1'' @ [10] @ asc ''rice'' @ [10] @ asc ''2024-01-02'' @ [10] @ asc ''Acme''"
  have r: "new_cell_value ?f = ?v
      \<and> bin_entry (asc ''3-5'') (CStr (new_cell_value ?f)) =
       [(''positionName'', asc ''3-5''), (''binName'', asc ''A1''), (''item'', asc ''rice''),
        (''date'', asc ''2024-01-02''), (''vendor'', asc ''Acme''),
        (''binValue'', new_cell_value ?f)]"
    by (rule C1_codec_round_trip [OF n f, of "asc ''3-5''", unfolded NL_def])
  have r1: "new_cell_value ?f = ?v"
    using r by (rule conjunct1)
  have r0: "bin_entry (asc ''3-5'') (CStr (new_cell_value ?f)) =
       [(''positionName'', asc ''3-5''), (''binName'', asc ''A1''), (''item'', asc ''rice''),
        (''date'', asc ''2024-01-02''), (''vendor'', asc ''Acme''),
        (''binValue'', new_cell_value ?f)]"
    using r by (rule conjunct2)
  have r2: "bin_entry (asc ''3-5'') (CStr (new_cell_value ?f)) =
       [(''positionName'', asc ''3-5''), (''binName'', asc ''A1''), (''item'', asc ''rice''),
        (''date'', asc ''2024-01-02''), (''vendor'', asc ''Acme''),
        (''binValue'', ?v)]"
    by (subst r0) (simp only: r1)
  show ?thesis
    using n r2 by (intro conjI)
qed

section \<open>Facts about submit\_data\<close>

lemma sheet_names_distinct: "DATA_SHEET_NAME \<noteq> MAP_SHEET_NAME"
  by (simp add: DATA_SHEET_NAME_def MAP_SHEET_NAME_def asc_def)

lemma exec_append:
  "exec (fs @ gs) st = (case exec fs st of (None, st') \<Rightarrow> exec gs st' | (Some e, st') \<Rightarrow> (Some e, st'))"
  by (induction fs arbitrary: st) (auto split: prod.splits option.splits)

lemma exec_keeps_disk:
  "\<forall>g \<in> set fs. \<forall>s. disk (snd (g s)) = disk s \<Longrightarrow> disk (snd (exec fs st)) = disk st"
proof (induction fs arbitrary: st)
  case Nil
  then show ?case by simp
next
  case (Cons g gs)
  obtain r st' where g: "g st = (r, st')"
    by (cases "g st") auto
  have d: "disk st' = disk st"
    using Cons.prems g by (metis list.set_intros(1) snd_conv)
  show ?case
  proof (cases r)
    case None
    have "disk (snd (exec gs st')) = disk st'"
      using Cons.prems by (intro Cons.IH) simp
    then show ?thesis
      using g None d by simp
  next
    case (Some e)
    then show ?thesis
      using g d by simp
  qed
qed

lemma load_step_disk: "disk (snd (load_step s)) = disk s"
  by (auto simp: load_step_def load_workbook_def split: option.splits)

lemma append_step_disk: "disk (snd (append_step fd ts s)) = disk s"
  by (auto simp: append_step_def wb_get_def split: option.splits sum.splits)

lemma position_step_disk: "disk (snd (position_step ud fd s)) = disk s"
  by (auto simp: position_step_def wb_get_def split: option.splits sum.splits if_splits)

lemma encode_step_disk: "disk (snd (encode_step fd s)) = disk s"
  by (auto simp: encode_step_def)

lemma cell_step_disk: "disk (snd (cell_step s)) = disk s"
  by (auto simp: cell_step_def wb_get_def split: option.splits sum.splits)

lemma submit_steps_split:
  "submit_steps ud fd ts = butlast (submit_steps ud fd ts) @ [save_step]"
  by (simp add: submit_steps_def)

lemma before_save_disk:
  assumes "g \<in> set (butlast (submit_steps ud fd ts))"
  shows "disk (snd (g s)) = disk s"
  using assms load_step_disk append_step_disk position_step_disk encode_step_disk cell_step_disk
  by (auto simp: submit_steps_def)

lemma take_before_save_disk:
  assumes "n < length (submit_steps ud fd ts)"
  shows "disk (snd (exec (take n (submit_steps ud fd ts)) st)) = disk st"
proof -
  have "take n (submit_steps ud fd ts) = take n (butlast (submit_steps ud fd ts))"
    using assms by (simp add: take_butlast)
  moreover have "disk (snd (exec (take n (butlast (submit_steps ud fd ts))) st)) = disk st"
    by (rule exec_keeps_disk) (blast dest: in_set_takeD before_save_disk)
  ultimately show ?thesis
    by simp
qed

lemma failure_before_save:
  assumes "fst (exec (butlast (submit_steps ud fd ts)) (init_state f)) = Some e"
  shows "exec (submit_steps ud fd ts) (init_state f)
           = exec (butlast (submit_steps ud fd ts)) (init_state f)
         \<and> submit_data ud fd ts f = (Some e, f)"
proof -
  let ?pre = "exec (butlast (submit_steps ud fd ts)) (init_state f)"
  have d: "disk (snd ?pre) = f"
    using exec_keeps_disk [of "butlast (submit_steps ud fd ts)" "init_state f"] before_save_disk
    by (auto simp: init_state_def)
  have e: "exec (submit_steps ud fd ts) (init_state f) =
      (case ?pre of (None, st') \<Rightarrow> exec [save_step] st' | (Some e, st') \<Rightarrow> (Some e, st'))"
    by (subst submit_steps_split) (rule exec_append)
  obtain st' where p: "?pre = (Some e, st')"
    using assms by (cases ?pre) auto
  have "exec (submit_steps ud fd ts) (init_state f) = ?pre"
    using e p by simp
  then show ?thesis
    using p d by (simp add: submit_data_def)
qed

lemma submit_data_summary:
  "submit_data ud fd ts f =
     (case f of
        None \<Rightarrow> (Some FileNotFoundError, f)
      | Some w \<Rightarrow>
          (case w DATA_SHEET_NAME of
             None \<Rightarrow> (Some KeyError, f)
           | Some ledger \<Rightarrow>
               (case stored_row (new_row fd ts) of
                  Inl e \<Rightarrow> (Some e, f)
                | Inr row1 \<Rightarrow>
                    (case w MAP_SHEET_NAME of
                       None \<Rightarrow> (Some KeyError, f)
                     | Some grid \<Rightarrow>
                         (case fd (asc ''positionName'') of
                            None \<Rightarrow> (Some ValueError, f)
                          | Some p \<Rightarrow>
                              if p = [] then (Some ValueError, f)
                              else
                                (case parse_position ud p of
                                   Inl e \<Rightarrow> (Some e, f)
                                 | Inr (c, r) \<Rightarrow>
                                     if r < 1 \<or> c < 1 \<or> 1048576 < r then (Some ValueError, f)
                                     else
                                       (case check_string (new_cell_value fd) of
                                          Inl e \<Rightarrow> (Some e, f)
                                        | Inr v \<Rightarrow>
                                            if 18278 < max_column
                                                 (set_cell grid (nat r) (nat c) (CStr (eol v)))
                                            then (Some ValueError, None)
                                            else (None,
                                              Some (w(DATA_SHEET_NAME \<mapsto> ledger @ [row1],
                                                      MAP_SHEET_NAME \<mapsto>
                                                        set_cell grid (nat r) (nat c)
                                                          (CStr (eol v))))))))))))"
  by (simp add: submit_data_def submit_steps_def init_state_def load_step_def append_step_def
      position_step_def encode_step_def cell_step_def save_step_def load_workbook_def wb_get_def
      ws_cell_write_def ws_append_def sheet_names_distinct sheet_names_distinct [symmetric]
      split: option.splits sum.splits prod.splits)

section \<open>Facts about worksheets\<close>

lemma length_pad: "length (pad n x xs) = max n (length xs)"
  by (simp add: pad_def)


lemma cell_value_set_cell:
  assumes "1 \<le> r" "1 \<le> c"
  shows "cell_value (set_cell ws r c v) r c = v"
  using assms by (simp add: cell_value_def set_cell_def Let_def length_pad)

lemma length_le_max_column: "row \<in> set ws \<Longrightarrow> length row \<le> max_column ws"
  by (induction ws) (auto simp: max_column_def)


lemma max_column_set_cell:
  assumes "1 \<le> r" "1 \<le> c"
  shows "c \<le> max_column (set_cell ws r c v)"
proof -
  let ?rows = "pad r [] ws"
  let ?cells = "(pad c CNone (?rows ! (r - 1)))[c - 1 := v]"
  have "r - 1 < length ?rows"
    using assms by (simp add: length_pad)
  then have "?cells \<in> set (?rows[r - 1 := ?cells])"
    by (rule set_update_memI)
  then have "length ?cells \<le> max_column (?rows[r - 1 := ?cells])"
    by (rule length_le_max_column)
  moreover have "set_cell ws r c v = ?rows[r - 1 := ?cells]"
    by (simp add: set_cell_def Let_def)
  ultimately show ?thesis
    by (simp add: length_pad)
qed





section \<open>Facts about the bin map\<close>

lemma nth_concat_uniform:
  "\<forall>ys \<in> set xss. length ys = n \<Longrightarrow> i < length xss \<Longrightarrow> j < n \<Longrightarrow>
   concat xss ! (i * n + j) = xss ! i ! j"
proof (induction xss arbitrary: i)
  case Nil
  then show ?case by simp
next
  case (Cons ys xss)
  show ?case
  proof (cases i)
    case 0
    with Cons.prems show ?thesis
      by (simp add: nth_append)
  next
    case (Suc k)
    with Cons.prems have "concat xss ! (k * n + j) = xss ! k ! j"
      by (intro Cons.IH) auto
    moreover have "length ys = n"
      using Cons.prems by simp
    ultimately show ?thesis
      using Suc by (simp add: nth_append)
  qed
qed

lemma length_bin_map_data: "length (bin_map_data ws) = max_row ws * max_column ws"
  by (simp add: bin_map_data_def length_concat comp_def sum_list_triv)

lemma nth_bin_map_data:
  assumes "1 \<le> row" "row \<le> max_row ws" "1 \<le> col" "col \<le> max_column ws"
  shows "bin_map_data ws ! ((row - 1) * max_column ws + (col - 1)) =
         bin_entry (position_name col row) (cell_value ws row col)"
proof -
  let ?f = "\<lambda>row. map (\<lambda>col. bin_entry (position_name col row) (cell_value ws row col))
                        [1 ..< Suc (max_column ws)]"
  let ?xss = "map ?f [1 ..< Suc (max_row ws)]"
  have "concat ?xss ! ((row - 1) * max_column ws + (col - 1)) = ?xss ! (row - 1) ! (col - 1)"
    using assms by (intro nth_concat_uniform) auto
  also have "?xss ! (row - 1) = ?f ([1 ..< Suc (max_row ws)] ! (row - 1))"
    using assms by (intro nth_map) simp
  also have "[1 ..< Suc (max_row ws)] ! (row - 1) = row"
    using assms by (subst nth_upt) auto
  also have "?f row ! (col - 1) =
      bin_entry (position_name ([1 ..< Suc (max_column ws)] ! (col - 1)) row)
        (cell_value ws row ([1 ..< Suc (max_column ws)] ! (col - 1)))"
    using assms by (intro nth_map) simp
  also have "[1 ..< Suc (max_column ws)] ! (col - 1) = col"
    using assms by (subst nth_upt) auto
  finally show ?thesis
    by (simp add: bin_map_data_def)
qed




section \<open>The ledger row and the cell text\<close>

text \<open>
  The four fields of the cell text are values of the ledger row too, and the row is
  written first: when openpyxl has taken the row, it takes the cell text.
\<close>

lemma legal_append:
  assumes "\<not> list_ex illegal_char (take n a)" "\<not> list_ex illegal_char (take n b)"
  shows "\<not> list_ex illegal_char (take n (a @ b))"
proof -
  have "set (take (n - length a) b) \<subseteq> set (take n b)"
    by (rule set_take_subset_set_take) simp
  then show ?thesis
    using assms by (auto simp: list_ex_iff)
qed

lemma legal_NL: "\<not> list_ex illegal_char (take n [NL])"
  by (cases n) (simp_all add: NL_def illegal_char_def)

lemma legal_encode:
  assumes "\<not> list_ex illegal_char (take n a)" "\<not> list_ex illegal_char (take n b)"
    "\<not> list_ex illegal_char (take n c)" "\<not> list_ex illegal_char (take n d)"
  shows "\<not> list_ex illegal_char (take n (encode a b c d))"
  unfolding encode_def using assms by (intro legal_append legal_NL)

lemma legal_field:
  assumes "bind_value (opt_cell x) = Inr v"
  shows "\<not> list_ex illegal_char (take 32767 (fstr x))"
proof (cases x)
  case None
  have "\<not> list_ex illegal_char (asc ''None'')"
    by (simp add: asc_def illegal_char_def)
  then have "\<not> list_ex illegal_char (take 32767 (asc ''None''))"
    by (auto simp: list_ex_iff dest: in_set_takeD)
  then show ?thesis
    using None by simp
next
  case (Some s)
  then show ?thesis
    using assms by (auto simp: check_string_def Let_def split: if_splits)
qed

lemma stored_row_fields:
  assumes "stored_row (new_row fd ts) = Inr row1"
  shows "\<exists>v1 v2 v3 v4.
           bind_value (opt_cell (fd KEY_BIN)) = Inr v1
         \<and> bind_value (opt_cell (fd KEY_MATERIAL)) = Inr v2
         \<and> bind_value (opt_cell (fd KEY_DATE)) = Inr v3
         \<and> bind_value (opt_cell (fd KEY_VENDOR)) = Inr v4"
  using assms by (simp add: stored_row_def new_row_def split: sum.splits)

lemma stored_row_accepts_cell:
  assumes "stored_row (new_row fd ts) = Inr row1"
  shows "check_string (new_cell_value fd) = Inr (take 32767 (new_cell_value fd))"
proof -
  obtain v1 v2 v3 v4 where "bind_value (opt_cell (fd KEY_BIN)) = Inr v1"
    "bind_value (opt_cell (fd KEY_MATERIAL)) = Inr v2"
    "bind_value (opt_cell (fd KEY_DATE)) = Inr v3"
    "bind_value (opt_cell (fd KEY_VENDOR)) = Inr v4"
    using stored_row_fields [OF assms] by blast
  then have "\<not> list_ex illegal_char (take 32767 (new_cell_value fd))"
    unfolding new_cell_value_def by (intro legal_encode legal_field)
  then show ?thesis
    by (simp add: check_string_def)
qed


lemma submit_data_cases:
  "submit_data ud fd ts f =
     (case f of
        None \<Rightarrow> (Some FileNotFoundError, f)
      | Some w \<Rightarrow>
          (case w DATA_SHEET_NAME of
             None \<Rightarrow> (Some KeyError, f)
           | Some ledger \<Rightarrow>
               (case stored_row (new_row fd ts) of
                  Inl e \<Rightarrow> (Some e, f)
                | Inr row1 \<Rightarrow>
                    (case w MAP_SHEET_NAME of
                       None \<Rightarrow> (Some KeyError, f)
                     | Some grid \<Rightarrow>
                         (case fd (asc ''positionName'') of
                            None \<Rightarrow> (Some ValueError, f)
                          | Some p \<Rightarrow>
                              if p = [] then (Some ValueError, f)
                              else
                                (case parse_position ud p of
                                   Inl e \<Rightarrow> (Some e, f)
                                 | Inr (c, r) \<Rightarrow>
                                     if r < 1 \<or> c < 1 \<or> 1048576 < r then (Some ValueError, f)
                                     else if 18278 < max_column
                                               (set_cell grid (nat r) (nat c)
                                                  (CStr (eol (take 32767 (new_cell_value fd)))))
                                     then (Some ValueError, None)
                                     else (None,
                                       Some (w(DATA_SHEET_NAME \<mapsto> ledger @ [row1],
                                               MAP_SHEET_NAME \<mapsto>
                                                 set_cell grid (nat r) (nat c)
                                                   (CStr (eol (take 32767
                                                      (new_cell_value fd)))))))))))))"
proof (cases "stored_row (new_row fd ts)")
  case (Inl e)
  then show ?thesis
    by (simp add: submit_data_summary split: option.splits)
next
  case (Inr row1)
  show ?thesis
    using stored_row_accepts_cell [OF Inr]
    by (simp add: submit_data_summary Inr split: option.splits sum.splits prod.splits)
qed


text \<open>
  A failure inside \<^verbatim>\<open>wb.save\<close>: a position with a column above 18278 (of at most
  4300 digits) passes every statement before, and the file is lost.
\<close>

lemma save_failure_loses_file:
  assumes "f = Some w" "w DATA_SHEET_NAME = Some ledger" "w MAP_SHEET_NAME = Some grid"
    and "stored_row (new_row fd ts) = Inr row1"
    and "fd (asc ''positionName'') = Some (position_name c r)"
    and "18278 < c" "1 \<le> r" "r \<le> 1048576" "length (str_nat c) \<le> max_str_digits"
  shows "fst (exec (butlast (submit_steps ud fd ts)) (init_state f)) = None
       \<and> submit_data ud fd ts f = (Some ValueError, None)"
proof -
  have m: "18278 < max_column (set_cell grid r c (CStr (eol (take 32767 (new_cell_value fd)))))"
    using max_column_set_cell [of r c grid "CStr (eol (take 32767 (new_cell_value fd)))"]
      assms(6,7) by simp
  have "length (str_nat r) \<le> 7"
    using assms(8) by (intro length_str_nat) simp_all
  then have pp: "parse_position ud (position_name c r) = Inr (int c, int r)"
    using assms(9) by (intro parse_position_name) (simp_all add: max_str_digits_def)
  have s: "submit_data ud fd ts f = (Some ValueError, None)"
    using assms(1-8) m pp by (simp add: submit_data_cases position_name_not_Nil)
  have "fst (exec (butlast (submit_steps ud fd ts)) (init_state f)) \<noteq> Some e" for e
    using failure_before_save [of ud fd ts f e] s assms(1) by auto
  then show ?thesis
    using s by (cases "fst (exec (butlast (submit_steps ud fd ts)) (init_state f))") auto
qed

section \<open>Claim C2\<close>

lemma parse_position_3_5: "parse_position ud (asc ''3-5'') = Inr (3, 5)"
  by (simp add: parse_position_def py_int_def strip_def is_space_def parse_nat_def
      dig_def asc_def digit_count_def max_str_digits_def)

lemma parse_position_0_1: "parse_position ud (asc ''0-1'') = Inr (0, 1)"
  by (simp add: parse_position_def py_int_def strip_def is_space_def parse_nat_def
      dig_def asc_def digit_count_def max_str_digits_def)

lemma parse_position_m1_2: "parse_position ud (asc ''-1-2'') = Inl ValueError"
  by (simp add: parse_position_def asc_def)

lemma parse_position_abc: "parse_position ud (asc ''abc'') = Inl ValueError"
  by (simp add: parse_position_def py_int_def strip_def is_space_def parse_nat_def
      dig_def asc_def digit_count_def max_str_digits_def)

text \<open>
  Decimal digits outside ASCII are read too: the Arabic-Indic digits three and five, with
  their values from the tables of Unicode.
\<close>

lemma parse_position_other_digits:
  "ud 0x663 = Some 3 \<Longrightarrow> ud 0x665 = Some 5 \<Longrightarrow>
   parse_position ud [0x663, 45, 0x665] = Inr (3, 5)"
  by (simp add: parse_position_def py_int_def strip_def is_space_def parse_nat_def
      dig_def digit_count_def max_str_digits_def)

lemma stored_row_control_character:
  "stored_row (new_row [asc ''positionName'' \<mapsto> p, KEY_NOTE \<mapsto> [7]] ts)
     = Inl IllegalCharacterError"
  by (simp add: stored_row_def new_row_def check_string_def illegal_char_def asc_def
      KEY_DATE_def KEY_MATERIAL_def KEY_VENDOR_def KEY_DRYNESS_def KEY_GRADE_def KEY_BIN_def
      KEY_WEIGHT_def KEY_CAPACITY_def KEY_RATE_def KEY_NOTE_def)

lemma set_cell_empty_5_3: "set_cell [] 5 3 v = [[], [], [], [], [CNone, CNone, v]]"
  by (simp add: set_cell_def pad_def Let_def eval_nat_numeral)

lemma stored_row_position_only:
  "stored_row (new_row [asc ''positionName'' \<mapsto> p] ts) = Inr [COther ts True]"
  by (simp add: stored_row_def new_row_def asc_def KEY_DATE_def KEY_MATERIAL_def KEY_VENDOR_def
      KEY_DRYNESS_def KEY_GRADE_def KEY_BIN_def KEY_WEIGHT_def KEY_CAPACITY_def KEY_RATE_def
      KEY_NOTE_def)

lemma new_cell_value_position_only:
  "new_cell_value [asc ''positionName'' \<mapsto> p] =
     asc ''None'' @ [10] @ asc ''None'' @ [10] @ asc ''None'' @ [10] @ asc ''None''"
  by (simp add: new_cell_value_def encode_def NL_def asc_def KEY_DATE_def KEY_MATERIAL_def
      KEY_VENDOR_def KEY_BIN_def)


lemma max_column_5_3: "max_column [[], [], [], [], [a, b, c]] = 3"
  by (simp add: max_column_def)

text \<open>
  C2. Position parsing in \<^verbatim>\<open>submit_data\<close>: the position text 3-5 is read as column 3 and
  row 5, and with both sheets present the handler writes the cell of row 5, column 3 of
  the map sheet, for every form whose ledger row openpyxl takes (a control character in a
  field ends the call at the ledger row, with the file as it was), the file being lost
  if the map sheet has a column above 18278. Each of the texts 0-1, -1-2 and abc makes the
  handler fail, and nothing is written to the file: with both sheets present the
  exception is ValueError (the invalid position), unless the ledger row has been refused
  before.
\<close>

theorem C2_position_parsing:
  "parse_position ud (asc ''3-5'') = Inr (3, 5)
   \<and> (f = Some w \<and> w DATA_SHEET_NAME = Some ledger \<and> w MAP_SHEET_NAME = Some grid
        \<and> fd (asc ''positionName'') = Some (asc ''3-5'') \<longrightarrow>
        submit_data ud fd ts f =
          (case stored_row (new_row fd ts) of
             Inl e \<Rightarrow> (Some e, f)
           | Inr row1 \<Rightarrow>
               if 18278 < max_column (set_cell grid 5 3
                                        (CStr (eol (take 32767 (new_cell_value fd)))))
               then (Some ValueError, None)
               else (None, Some (w(DATA_SHEET_NAME \<mapsto> ledger @ [row1],
                                   MAP_SHEET_NAME \<mapsto>
                                     set_cell grid 5 3
                                       (CStr (eol (take 32767 (new_cell_value fd))))))))
        \<and> cell_value (set_cell grid 5 3 (CStr (eol (take 32767 (new_cell_value fd))))) 5 3
            = CStr (eol (take 32767 (new_cell_value fd))))
   \<and> (p \<in> {asc ''0-1'', asc ''-1-2'', asc ''abc''} \<and> fd (asc ''positionName'') = Some p \<longrightarrow>
        fst (submit_data ud fd ts f) \<noteq> None \<and> snd (submit_data ud fd ts f) = f
        \<and> (f = Some w \<and> w DATA_SHEET_NAME = Some ledger \<and> w MAP_SHEET_NAME = Some grid \<longrightarrow>
             submit_data ud fd ts f =
               (case stored_row (new_row fd ts) of
                  Inl e \<Rightarrow> (Some e, f)
                | Inr row1 \<Rightarrow> (Some ValueError, f))))"
proof -
  let ?text = "eol (take 32767 (new_cell_value fd))"
  have ne: "asc ''3-5'' \<noteq> []"
    by (simp add: asc_def)
  have ok: "submit_data ud fd ts f =
          (case stored_row (new_row fd ts) of
             Inl e \<Rightarrow> (Some e, f)
           | Inr row1 \<Rightarrow>
               if 18278 < max_column (set_cell grid 5 3 (CStr ?text))
               then (Some ValueError, None)
               else (None, Some (w(DATA_SHEET_NAME \<mapsto> ledger @ [row1],
                                   MAP_SHEET_NAME \<mapsto> set_cell grid 5 3 (CStr ?text)))))"
    if "f = Some w" "w DATA_SHEET_NAME = Some ledger" "w MAP_SHEET_NAME = Some grid"
      "fd (asc ''positionName'') = Some (asc ''3-5'')"
    using that ne by (simp add: submit_data_cases parse_position_3_5 split: sum.splits)
  have bad: "fst (submit_data ud fd ts f) \<noteq> None \<and> snd (submit_data ud fd ts f) = f
        \<and> (f = Some w \<and> w DATA_SHEET_NAME = Some ledger \<and> w MAP_SHEET_NAME = Some grid \<longrightarrow>
             submit_data ud fd ts f =
               (case stored_row (new_row fd ts) of
                  Inl e \<Rightarrow> (Some e, f)
                | Inr row1 \<Rightarrow> (Some ValueError, f)))"
    if "p \<in> {asc ''0-1'', asc ''-1-2'', asc ''abc''}" "fd (asc ''positionName'') = Some p"
  proof -
    have pp: "parse_position ud p = Inr (0, 1) \<or> parse_position ud p = Inl ValueError"
      using that(1) parse_position_0_1 parse_position_m1_2 parse_position_abc by auto
    have "p \<noteq> []"
      using that(1) by (auto simp: asc_def)
    then show ?thesis
      using pp that(2) by (auto simp: submit_data_cases split: option.splits sum.splits)
  qed
  have rd: "cell_value (set_cell grid 5 3 (CStr ?text)) 5 3 = CStr ?text"
    by (rule cell_value_set_cell) simp_all
  show ?thesis
    using parse_position_3_5 ok bad rd by blast
qed

theorem C2_position_parsing_witness:
  "submit_data (\<lambda>c. None) [asc ''positionName'' \<mapsto> asc ''3-5''] (asc ''2024-01-02 10:00:00'')
      (Some [DATA_SHEET_NAME \<mapsto> [], MAP_SHEET_NAME \<mapsto> []])
    = (None, Some [DATA_SHEET_NAME \<mapsto> [[COther (asc ''2024-01-02 10:00:00'') True]],
                   MAP_SHEET_NAME \<mapsto>
                     [[], [], [], [],
                      [CNone, CNone,
                       CStr (asc ''None'' @ [10] @ asc ''None'' @ [10] @ asc ''None'' @ [10]
                             @ asc ''None'')]]])
   \<and> submit_data (\<lambda>c. None) [asc ''positionName'' \<mapsto> asc ''0-1''] (asc ''2024-01-02 10:00:00'')
      (Some [DATA_SHEET_NAME \<mapsto> [], MAP_SHEET_NAME \<mapsto> []])
    = (Some ValueError, Some [DATA_SHEET_NAME \<mapsto> [], MAP_SHEET_NAME \<mapsto> []])
   \<and> submit_data (\<lambda>c. None) [asc ''positionName'' \<mapsto> asc ''3-5'', KEY_NOTE \<mapsto> [7]]
      (asc ''2024-01-02 10:00:00'')
      (Some [DATA_SHEET_NAME \<mapsto> [], MAP_SHEET_NAME \<mapsto> []])
    = (Some IllegalCharacterError, Some [DATA_SHEET_NAME \<mapsto> [], MAP_SHEET_NAME \<mapsto> []])"
proof -
  let ?w = "[DATA_SHEET_NAME \<mapsto> [], MAP_SHEET_NAME \<mapsto> ([] :: sheet)]"
  let ?ts = "asc ''2024-01-02 10:00:00''"
  let ?v = "asc ''None'' @ [10] @ asc ''None'' @ [10] @ asc ''None'' @ [10] @ asc ''None''"
  have s: "?w DATA_SHEET_NAME = Some []" "?w MAP_SHEET_NAME = Some []"
    by (simp_all add: sheet_names_distinct)
  have t: "eol (take 32767 ?v) = ?v"
    by (simp add: asc_def)
  have m: "max_column [[], [], [], [], [CNone, CNone, CStr ?v]] = 3"
    by (rule max_column_5_3)
  have u: "?w(DATA_SHEET_NAME \<mapsto> [] @ [[COther ?ts True]],
              MAP_SHEET_NAME \<mapsto> [[], [], [], [], [CNone, CNone, CStr ?v]])
         = [DATA_SHEET_NAME \<mapsto> [[COther ?ts True]],
            MAP_SHEET_NAME \<mapsto> [[], [], [], [], [CNone, CNone, CStr ?v]]]"
    by (simp add: sheet_names_distinct)
  have a: "submit_data (\<lambda>c. None) [asc ''positionName'' \<mapsto> asc ''3-5''] ?ts (Some ?w)
      = (None, Some [DATA_SHEET_NAME \<mapsto> [[COther ?ts True]],
                     MAP_SHEET_NAME \<mapsto> [[], [], [], [], [CNone, CNone, CStr ?v]]])"
    using s C2_position_parsing [of "\<lambda>c. None" "Some ?w" ?w "[]" "[]"
        "[asc ''positionName'' \<mapsto> asc ''3-5'']" ?ts "asc ''0-1''"]
    by (simp only: stored_row_position_only new_cell_value_position_only t set_cell_empty_5_3 m u)
      simp
  have b: "submit_data (\<lambda>c. None) [asc ''positionName'' \<mapsto> asc ''0-1''] ?ts (Some ?w)
      = (Some ValueError, Some ?w)"
    using s C2_position_parsing [of "\<lambda>c. None" "Some ?w" ?w "[]" "[]"
        "[asc ''positionName'' \<mapsto> asc ''0-1'']" ?ts "asc ''0-1''"]
    by (simp add: stored_row_position_only)
  have k: "[asc ''positionName'' \<mapsto> asc ''3-5'', KEY_NOTE \<mapsto> [7]] (asc ''positionName'')
      = Some (asc ''3-5'')"
    by (simp add: KEY_NOTE_def asc_def)
  have c: "submit_data (\<lambda>c. None) [asc ''positionName'' \<mapsto> asc ''3-5'', KEY_NOTE \<mapsto> [7]] ?ts
      (Some ?w) = (Some IllegalCharacterError, Some ?w)"
    using s k C2_position_parsing [of "\<lambda>c. None" "Some ?w" ?w "[]" "[]"
        "[asc ''positionName'' \<mapsto> asc ''3-5'', KEY_NOTE \<mapsto> [7]]" ?ts "asc ''0-1''"]
    by (simp only: stored_row_control_character) simp
  show ?thesis
    using a b c by (intro conjI)
qed

section \<open>Claims C8 and C10\<close>



text \<open>
  C10. A failed write leaves the file as it was. If \<^verbatim>\<open>submit_data\<close> ends with an
  exception raised by a statement before the last one, \<^verbatim>\<open>wb.save\<close> (a missing or
  malformed positionName among them), the file after the call is the file before it, so
  a later read gives the same answer; and if the run is cut after any number of
  statements short of \<^verbatim>\<open>wb.save\<close>, the file is the file before the call too. When the
  ledger and map sheets are there, the ledger row is taken and a later statement before
  \<^verbatim>\<open>wb.save\<close> fails, it fails on the position with ValueError, and the row appended to
  the ledger before the position is checked is in the workbook object in memory only.
\<close>

theorem C10_failed_write_keeps_file:
  "(fst (exec (butlast (submit_steps ud fd ts)) (init_state f)) = Some e \<longrightarrow>
      submit_data ud fd ts f = (Some e, f)
      \<and> get_data (snd (submit_data ud fd ts f)) = get_data f)
   \<and> (n < length (submit_steps ud fd ts) \<longrightarrow>
        disk (snd (exec (take n (submit_steps ud fd ts)) (init_state f))) = f)
   \<and> (f = Some w \<and> w DATA_SHEET_NAME = Some ledger \<and> w MAP_SHEET_NAME = Some grid
        \<and> stored_row (new_row fd ts) = Inr row1
        \<and> fst (exec (butlast (submit_steps ud fd ts)) (init_state f)) \<noteq> None \<longrightarrow>
        (\<exists>st. exec (submit_steps ud fd ts) (init_state f) = (Some ValueError, st)
              \<and> wb st DATA_SHEET_NAME = Some (ledger @ [row1])
              \<and> wb st MAP_SHEET_NAME = Some grid
              \<and> disk st = f))"
proof -
  let ?pre = "exec (butlast (submit_steps ud fd ts)) (init_state f)"
  have a: "submit_data ud fd ts f = (Some e, f)
      \<and> get_data (snd (submit_data ud fd ts f)) = get_data f"
    if "fst ?pre = Some e"
    using failure_before_save [OF that] by simp
  have b: "disk (snd (exec (take n (submit_steps ud fd ts)) (init_state f))) = f"
    if "n < length (submit_steps ud fd ts)"
    using take_before_save_disk [OF that, of "init_state f"] by (simp add: init_state_def)
  have c: "\<exists>st. exec (submit_steps ud fd ts) (init_state f) = (Some ValueError, st)
              \<and> wb st DATA_SHEET_NAME = Some (ledger @ [row1])
              \<and> wb st MAP_SHEET_NAME = Some grid
              \<and> disk st = f"
    if h: "f = Some w" "w DATA_SHEET_NAME = Some ledger" "w MAP_SHEET_NAME = Some grid"
      "stored_row (new_row fd ts) = Inr row1" "fst ?pre \<noteq> None"
  proof -
    obtain e' where e': "fst ?pre = Some e'"
      using h(5) by auto
    have full: "exec (submit_steps ud fd ts) (init_state f) = ?pre"
      using failure_before_save [OF e'] by simp
    let ?st1 = "(init_state f)\<lparr>wb := w\<rparr>"
    let ?st2 = "?st1\<lparr>wb := w(DATA_SHEET_NAME \<mapsto> ledger @ [row1])\<rparr>"
    have l: "load_step (init_state f) = (None, ?st1)"
      using h(1) by (simp add: load_step_def load_workbook_def init_state_def)
    have ap: "append_step fd ts ?st1 = (None, ?st2)"
      using h(2,4) by (simp add: append_step_def wb_get_def ws_append_def)
    have e: "?pre = exec [position_step ud fd, encode_step fd, cell_step] ?st2"
      by (simp add: submit_steps_def l ap)
    have d: "disk ?st2 = f" "wb ?st2 DATA_SHEET_NAME = Some (ledger @ [row1])"
      "wb ?st2 MAP_SHEET_NAME = Some grid"
      using h(3) by (simp_all add: init_state_def sheet_names_distinct [symmetric])
    obtain r3 st3 where p3: "position_step ud fd ?st2 = (r3, st3)"
      by (cases "position_step ud fd ?st2") auto
    show ?thesis
    proof (cases r3)
      case (Some err)
      then have "err = ValueError \<and> st3 = ?st2"
        using p3 d(3)
        by (auto simp: position_step_def wb_get_def dest: parse_position_error
            split: option.splits if_splits sum.splits)
      then show ?thesis
        using full e d p3 Some by simp
    next
      case None
      then have s3: "wb st3 = wb ?st2" "disk st3 = disk ?st2"
        using p3
        by (auto simp: position_step_def wb_get_def split: option.splits if_splits sum.splits)
      let ?st4 = "st3\<lparr>cell_text := new_cell_value fd\<rparr>"
      have e4: "?pre = exec [cell_step] ?st4"
        using e p3 None by (simp add: encode_step_def)
      have ck: "check_string (new_cell_value fd) = Inr (take 32767 (new_cell_value fd))"
        using h(4) by (rule stored_row_accepts_cell)
      obtain r5 st5 where p5: "cell_step ?st4 = (r5, st5)"
        by (cases "cell_step ?st4") auto
      show ?thesis
      proof (cases r5)
        case (Some err)
        then have "err = ValueError \<and> st5 = ?st4"
          using p5 s3 d(3) ck
          by (auto simp: cell_step_def wb_get_def ws_cell_write_def
              split: option.splits if_splits sum.splits)
        then show ?thesis
          using full e4 p5 Some s3 d by simp
      next
        case None
        then have "fst ?pre = None"
          using e4 p5 by simp
        then show ?thesis
          using h(5) by simp
      qed
    qed
  qed
  show ?thesis
    using a b c by blast
qed

theorem C10_failed_write_keeps_file_witness:
  "submit_data (\<lambda>c. None) [asc ''positionName'' \<mapsto> asc ''abc''] (asc ''t1'')
      (Some [DATA_SHEET_NAME \<mapsto> [[CStr (asc ''old'')]], MAP_SHEET_NAME \<mapsto> []])
    = (Some ValueError,
       Some [DATA_SHEET_NAME \<mapsto> [[CStr (asc ''old'')]], MAP_SHEET_NAME \<mapsto> []])
   \<and> disk (snd (exec (take 5 (submit_steps (\<lambda>c. None) [asc ''positionName'' \<mapsto> asc ''3-5'']
                                (asc ''t1'')))
        (init_state (Some [DATA_SHEET_NAME \<mapsto> [[CStr (asc ''old'')]],
                           MAP_SHEET_NAME \<mapsto> []]))))
     = Some [DATA_SHEET_NAME \<mapsto> [[CStr (asc ''old'')]], MAP_SHEET_NAME \<mapsto> []]
   \<and> (\<exists>st. exec (submit_steps (\<lambda>c. None) [asc ''positionName'' \<mapsto> asc ''abc''] (asc ''t1''))
              (init_state (Some [DATA_SHEET_NAME \<mapsto> [[CStr (asc ''old'')]],
                                 MAP_SHEET_NAME \<mapsto> []]))
            = (Some ValueError, st)
          \<and> wb st DATA_SHEET_NAME = Some [[CStr (asc ''old'')], [COther (asc ''t1'') True]])"
proof -
  let ?w = "[DATA_SHEET_NAME \<mapsto> [[CStr (asc ''old'')]], MAP_SHEET_NAME \<mapsto> ([] :: sheet)]"
  let ?fd = "[asc ''positionName'' \<mapsto> asc ''abc'']"
  let ?fd2 = "[asc ''positionName'' \<mapsto> asc ''3-5'']"
  let ?ud = "\<lambda>c::nat. None :: nat option"
  have s: "?w DATA_SHEET_NAME = Some [[CStr (asc ''old'')]]" "?w MAP_SHEET_NAME = Some []"
    by (simp_all add: sheet_names_distinct)
  have ne: "asc ''abc'' \<noteq> []"
    by (simp add: asc_def)
  have sd: "submit_data ?ud ?fd (asc ''t1'') (Some ?w) = (Some ValueError, Some ?w)"
    using s ne by (simp add: submit_data_cases parse_position_abc stored_row_position_only)
  have e: "fst (exec (butlast (submit_steps ?ud ?fd (asc ''t1''))) (init_state (Some ?w)))
      = Some ValueError"
  proof (cases "fst (exec (butlast (submit_steps ?ud ?fd (asc ''t1''))) (init_state (Some ?w)))")
    case None
    have x: "exec (submit_steps ?ud ?fd (asc ''t1'')) (init_state (Some ?w)) =
      (case exec (butlast (submit_steps ?ud ?fd (asc ''t1''))) (init_state (Some ?w)) of
         (None, st') \<Rightarrow> exec [save_step] st' | (Some e, st') \<Rightarrow> (Some e, st'))"
      by (subst submit_steps_split) (rule exec_append)
    obtain st' where
      "exec (butlast (submit_steps ?ud ?fd (asc ''t1''))) (init_state (Some ?w)) = (None, st')"
      using None
      by (cases "exec (butlast (submit_steps ?ud ?fd (asc ''t1''))) (init_state (Some ?w))") auto
    then have "snd (submit_data ?ud ?fd (asc ''t1'') (Some ?w)) \<noteq> Some ?w
        \<or> fst (submit_data ?ud ?fd (asc ''t1'') (Some ?w)) = None"
      using x by (auto simp: submit_data_def save_step_def split: option.splits if_splits)
    then show ?thesis
      using sd by simp
  next
    case (Some e')
    then show ?thesis
      using failure_before_save [OF Some] sd by simp
  qed
  have n: "5 < length (submit_steps ?ud ?fd2 (asc ''t1''))"
    by (simp add: submit_steps_def)
  have r: "stored_row (new_row ?fd (asc ''t1'')) = Inr [COther (asc ''t1'') True]"
    by (rule stored_row_position_only)
  have e0: "fst (exec (butlast (submit_steps ?ud ?fd (asc ''t1''))) (init_state (Some ?w)))
      \<noteq> None"
    using e by simp
  have c1: "submit_data ?ud ?fd (asc ''t1'') (Some ?w) = (Some ValueError, Some ?w)"
    using e C10_failed_write_keeps_file [of ?ud ?fd "asc ''t1''" "Some ?w" ValueError 5]
    by blast
  have c2: "disk (snd (exec (take 5 (submit_steps ?ud ?fd2 (asc ''t1''))) (init_state (Some ?w))))
      = Some ?w"
    using n C10_failed_write_keeps_file [of ?ud ?fd2 "asc ''t1''" "Some ?w" ValueError 5]
    by blast
  have c3: "\<exists>st. exec (submit_steps ?ud ?fd (asc ''t1'')) (init_state (Some ?w))
            = (Some ValueError, st)
          \<and> wb st DATA_SHEET_NAME = Some ([[CStr (asc ''old'')]] @ [[COther (asc ''t1'') True]])
          \<and> wb st MAP_SHEET_NAME = Some []
          \<and> disk st = Some ?w"
    using s r e0
      C10_failed_write_keeps_file [of ?ud ?fd "asc ''t1''" "Some ?w" ValueError 5 ?w
        "[[CStr (asc ''old'')]]" "[]" "[COther (asc ''t1'') True]"]
    by blast
  then have c3': "\<exists>st. exec (submit_steps ?ud ?fd (asc ''t1'')) (init_state (Some ?w))
            = (Some ValueError, st)
          \<and> wb st DATA_SHEET_NAME = Some [[CStr (asc ''old'')], [COther (asc ''t1'') True]]"
    by auto
  show ?thesis
    using c1 c2 c3' by (intro conjI)
qed

section \<open>Claims C3 and C4\<close>

lemma get_data_success:
  "get_data f = Inr res \<longleftrightarrow>
     (\<exists>w options_sheet map_sheet.
        f = Some w \<and> w OPTIONS_SHEET_NAME = Some options_sheet
        \<and> w MAP_SHEET_NAME = Some map_sheet
        \<and> json_keys_ok (dropdown_keys (ws_values options_sheet))
        \<and> res = \<lparr>dropdownOptions = dropdown_options_of (ws_values options_sheet),
                  binMapData = bin_map_data map_sheet\<rparr>)"
  by (auto simp: get_data_def load_workbook_def wb_get_def Let_def split: option.splits)

lemma str_nat_1: "str_nat (Suc 0) = [49]"
  unfolding str_nat_def by (subst digits_rev.simps) (simp add: digit_char_def)

lemma str_nat_2: "str_nat 2 = [50]"
  unfolding str_nat_def by (subst digits_rev.simps) (simp add: digit_char_def)

lemma position_name_1_1: "position_name (Suc 0) (Suc 0) = asc ''1-1''"
  by (simp add: position_name_def str_nat_1 asc_def)

lemma position_name_2_1: "position_name 2 (Suc 0) = asc ''2-1''"
  by (simp add: position_name_def str_nat_1 str_nat_2 asc_def)

lemma json_keys_ok_Nil: "json_keys_ok (dropdown_keys (ws_values []))"
  by (simp add: json_keys_ok_def dropdown_keys_def ws_values_def)

lemma options_not_map: "OPTIONS_SHEET_NAME \<noteq> MAP_SHEET_NAME"
  by (simp add: OPTIONS_SHEET_NAME_def MAP_SHEET_NAME_def asc_def)


text \<open>
  Headers of two kinds in the options sheet, a text and a number, make \<^verbatim>\<open>jsonify\<close>
  fail on the dictionary of \<^verbatim>\<open>get_data\<close>.
\<close>

lemma get_data_mixed_keys:
  "get_data (Some [OPTIONS_SHEET_NAME \<mapsto> [[CStr (asc ''a''), CInt 1]],
                   MAP_SHEET_NAME \<mapsto> []])
     = Inl TypeError"
  by (simp add: get_data_def load_workbook_def wb_get_def options_not_map json_keys_ok_def
      dropdown_keys_def ws_values_def row_cells_def pad_def max_column_def asc_def)

text \<open>
  C3, as the code has it. For a map sheet of M rows and N columns the list binMapData of
  \<^verbatim>\<open>get_data\<close> has exactly M times N entries, one for each cell of the whole rectangle,
  row by row, the entry of column c and row r being named c-r. The entry of a cell that
  holds a non-empty string carries positionName, binName, item, date, vendor and
  binValue. The entry of any other cell (empty, or not a string) carries positionName,
  binName and binValue only, the last two empty: it has no item, date or vendor.
\<close>

theorem C3_bin_map_dense:
  assumes "get_data f = Inr res"
  shows "\<exists>w map_sheet.
           f = Some w \<and> w MAP_SHEET_NAME = Some map_sheet
           \<and> length (binMapData res) = max_row map_sheet * max_column map_sheet
           \<and> (\<forall>row col. 1 \<le> row \<and> row \<le> max_row map_sheet
                          \<and> 1 \<le> col \<and> col \<le> max_column map_sheet \<longrightarrow>
                 binMapData res ! ((row - 1) * max_column map_sheet + (col - 1)) =
                   (case cell_value map_sheet row col of
                      CStr s \<Rightarrow>
                        if s \<noteq> [] then
                          [(''positionName'', position_name col row),
                           (''binName'', line_or_empty (split NL s) 0),
                           (''item'', line_or_empty (split NL s) 1),
                           (''date'', line_or_empty (split NL s) 2),
                           (''vendor'', line_or_empty (split NL s) 3),
                           (''binValue'', s)]
                        else
                          [(''positionName'', position_name col row),
                           (''binName'', []), (''binValue'', [])]
                    | _ \<Rightarrow>
                        [(''positionName'', position_name col row),
                         (''binName'', []), (''binValue'', [])]))"
proof -
  obtain w options_sheet map_sheet where h: "f = Some w" "w MAP_SHEET_NAME = Some map_sheet"
    and r: "res = \<lparr>dropdownOptions = dropdown_options_of (ws_values options_sheet),
                  binMapData = bin_map_data map_sheet\<rparr>"
    using assms unfolding get_data_success by blast
  have e: "bin_entry pos v =
      (case v of
         CStr s \<Rightarrow>
           if s \<noteq> [] then
             [(''positionName'', pos),
              (''binName'', line_or_empty (split NL s) 0),
              (''item'', line_or_empty (split NL s) 1),
              (''date'', line_or_empty (split NL s) 2),
              (''vendor'', line_or_empty (split NL s) 3),
              (''binValue'', s)]
           else [(''positionName'', pos), (''binName'', []), (''binValue'', [])]
       | _ \<Rightarrow> [(''positionName'', pos), (''binName'', []), (''binValue'', [])])" for pos v
    by (cases v) (simp_all add: Let_def)
  have l: "length (binMapData res) = max_row map_sheet * max_column map_sheet"
    by (simp add: r length_bin_map_data)
  have n: "binMapData res ! ((row - 1) * max_column map_sheet + (col - 1)) =
      bin_entry (position_name col row) (cell_value map_sheet row col)"
    if "1 \<le> row \<and> row \<le> max_row map_sheet \<and> 1 \<le> col \<and> col \<le> max_column map_sheet"
    for row col
  proof -
    have "binMapData res = bin_map_data map_sheet"
      by (simp add: r)
    moreover have "1 \<le> row" "row \<le> max_row map_sheet" "1 \<le> col" "col \<le> max_column map_sheet"
      using that by simp_all
    ultimately show ?thesis
      by (simp only: nth_bin_map_data)
  qed
  show ?thesis
    using h l n
    by (rule_tac x = w in exI, rule_tac x = map_sheet in exI) (simp add: e)
qed

theorem C3_bin_map_dense_witness:
  "get_data (Some [OPTIONS_SHEET_NAME \<mapsto> [],
                   MAP_SHEET_NAME \<mapsto> [[CStr (asc ''A''), CNone]]]) =
     Inr \<lparr>dropdownOptions = dropdown_options_of (ws_values []),
          binMapData = bin_map_data [[CStr (asc ''A''), CNone]]\<rparr>
   \<and> length (bin_map_data [[CStr (asc ''A''), CNone]]) = 2
   \<and> bin_map_data [[CStr (asc ''A''), CNone]] ! 0 =
        [(''positionName'', asc ''1-1''), (''binName'', asc ''A''), (''item'', []),
         (''date'', []), (''vendor'', []), (''binValue'', asc ''A'')]
   \<and> bin_map_data [[CStr (asc ''A''), CNone]] ! 1 =
        [(''positionName'', asc ''2-1''), (''binName'', []), (''binValue'', [])]"
proof -
  let ?f = "Some [OPTIONS_SHEET_NAME \<mapsto> [], MAP_SHEET_NAME \<mapsto> [[CStr (asc ''A''), CNone]]]"
  let ?res = "\<lparr>dropdownOptions = dropdown_options_of (ws_values []),
                  binMapData = bin_map_data [[CStr (asc ''A''), CNone]]\<rparr>"
  have g: "get_data ?f = Inr ?res"
    by (simp add: get_data_def load_workbook_def wb_get_def options_not_map json_keys_ok_Nil)
  obtain w ms where h: "?f = Some w" "w MAP_SHEET_NAME = Some ms"
    and l: "length (binMapData ?res) = max_row ms * max_column ms"
    and n: "\<forall>row col. 1 \<le> row \<and> row \<le> max_row ms \<and> 1 \<le> col \<and> col \<le> max_column ms \<longrightarrow>
                 binMapData ?res ! ((row - 1) * max_column ms + (col - 1)) =
                   (case cell_value ms row col of
                      CStr s \<Rightarrow>
                        if s \<noteq> [] then
                          [(''positionName'', position_name col row),
                           (''binName'', line_or_empty (split NL s) 0),
                           (''item'', line_or_empty (split NL s) 1),
                           (''date'', line_or_empty (split NL s) 2),
                           (''vendor'', line_or_empty (split NL s) 3),
                           (''binValue'', s)]
                        else
                          [(''positionName'', position_name col row),
                           (''binName'', []), (''binValue'', [])]
                    | _ \<Rightarrow>
                        [(''positionName'', position_name col row),
                         (''binName'', []), (''binValue'', [])])"
    using C3_bin_map_dense [OF g] by blast
  have ms: "ms = [[CStr (asc ''A''), CNone]]"
    using h by auto
  have m: "max_row ms = 1" "max_column ms = 2"
    by (simp_all add: ms max_row_def max_column_def)
  have e0: "bin_map_data [[CStr (asc ''A''), CNone]] ! 0 =
        [(''positionName'', asc ''1-1''), (''binName'', asc ''A''), (''item'', []),
         (''date'', []), (''vendor'', []), (''binValue'', asc ''A'')]"
    using n [rule_format, of 1 1]
    by (simp add: ms max_row_def max_column_def position_name_1_1 cell_value_def
        line_or_empty_def NL_def asc_def)
  have e1: "bin_map_data [[CStr (asc ''A''), CNone]] ! 1 =
        [(''positionName'', asc ''2-1''), (''binName'', []), (''binValue'', [])]"
    using n [rule_format, of 1 2]
    by (simp add: ms max_row_def max_column_def position_name_2_1 cell_value_def)
  show ?thesis
    using g l e0 e1 by (simp add: m)
qed

theorem C3_counterexample:
  "map_sum id binMapData
     (get_data (Some [OPTIONS_SHEET_NAME \<mapsto> [], MAP_SHEET_NAME \<mapsto> [[CNone]]])) =
     Inr [[(''positionName'', asc ''1-1''), (''binName'', []), (''binValue'', [])]]
   \<and> map_of [(''positionName'', asc ''1-1''), (''binName'', []), (''binValue'', [])] ''item''
       = None"
  by (simp add: get_data_def load_workbook_def wb_get_def options_not_map json_keys_ok_Nil
      bin_map_data_def max_row_def max_column_def cell_value_def position_name_1_1)



text \<open>A text of more than 32767 characters is cut: the fields after the cut are lost.\<close>

lemma check_string_cuts:
  assumes "length a = 32767" "\<not> list_ex illegal_char a"
  shows "check_string (encode a b c d) = Inr a"
  using assms by (simp add: check_string_def encode_def)






section \<open>Facts about the lookup lists\<close>

lemma set_first_seen: "set (first_seen xs) = set xs"
  by (induction xs rule: first_seen.induct) auto

lemma distinct_first_seen: "distinct (first_seen xs)"
  by (induction xs rule: first_seen.induct) (auto simp: set_first_seen)

lemma options_loop_spec:
  "seen_options = set options_list \<Longrightarrow>
   options_loop i rows options_list seen_options =
     options_list @ first_seen (filter (\<lambda>v. v \<noteq> [] \<and> v \<notin> set options_list)
                                  (column_values i rows))"
proof (induction rows arbitrary: options_list seen_options)
  case Nil
  then show ?case
    by (simp add: column_values_def)
next
  case (Cons row rows)
  let ?v = "strip (str_cell (row ! i))"
  show ?case
  proof (cases "length row > i \<and> row ! i \<noteq> CNone")
    case False
    then show ?thesis
      using Cons.IH [OF Cons.prems] by (auto simp: column_values_def)
  next
    case True
    then have cv: "column_values i (row # rows) = ?v # column_values i rows"
      by (simp add: column_values_def)
    show ?thesis
    proof (cases "?v \<noteq> [] \<and> ?v \<notin> seen_options")
      case False
      then show ?thesis
        using True Cons.IH [OF Cons.prems] Cons.prems by (auto simp: cv Let_def)
    next
      case new: True
      have "insert ?v seen_options = set (options_list @ [?v])"
        using Cons.prems by simp
      from Cons.IH [OF this] show ?thesis
        using True new Cons.prems by (simp add: cv Let_def conj_ac)
    qed
  qed
qed

lemma column_options_spec: "column_options i rows = spec_lookup_list i rows"
  by (simp add: column_options_def spec_lookup_list_def options_loop_spec)

lemma set_column_options:
  "set (column_options i rows) = {v \<in> set (column_values i rows). v \<noteq> []}"
  by (auto simp: column_options_spec spec_lookup_list_def set_first_seen)

lemma distinct_column_options: "distinct (column_options i rows)"
  by (simp add: column_options_spec spec_lookup_list_def distinct_first_seen)

lemma fold_dict_Some:
  "fold (\<lambda>(i, h) m. case key h of None \<Rightarrow> m | Some k \<Rightarrow> m(k \<mapsto> g i)) ihs m0 k = Some vs \<Longrightarrow>
   m0 k = Some vs \<or> (\<exists>(i, h) \<in> set ihs. key h = Some k \<and> vs = g i)"
proof (induction ihs arbitrary: m0)
  case Nil
  then show ?case by simp
next
  case (Cons ih ihs)
  obtain i h where ih: "ih = (i, h)"
    by (cases ih)
  show ?case
  proof (cases "key h")
    case None
    then show ?thesis
      using Cons.IH [of m0] Cons.prems by (auto simp: ih)
  next
    case (Some k')
    have "fold (\<lambda>(i, h) m. case key h of None \<Rightarrow> m | Some k \<Rightarrow> m(k \<mapsto> g i)) ihs
            (m0(k' \<mapsto> g i)) k = Some vs"
      using Cons.prems by (simp add: ih Some)
    then have "(m0(k' \<mapsto> g i)) k = Some vs
        \<or> (\<exists>(i, h) \<in> set ihs. key h = Some k \<and> vs = g i)"
      by (rule Cons.IH)
    then show ?thesis
      using Some by (auto simp: ih split: if_splits)
  qed
qed

lemma fold_dict_keeps:
  "m0 k \<noteq> None \<Longrightarrow>
   fold (\<lambda>(i, h) m. case key h of None \<Rightarrow> m | Some k \<Rightarrow> m(k \<mapsto> g i)) ihs m0 k \<noteq> None"
  by (induction ihs arbitrary: m0) (auto split: option.splits)

lemma fold_dict_dom:
  "(i, h) \<in> set ihs \<Longrightarrow> key h = Some k \<Longrightarrow>
   fold (\<lambda>(i, h) m. case key h of None \<Rightarrow> m | Some k \<Rightarrow> m(k \<mapsto> g i)) ihs m0 k \<noteq> None"
proof (induction ihs arbitrary: m0)
  case Nil
  then show ?case by simp
next
  case (Cons ih ihs)
  show ?case
  proof (cases "ih = (i, h)")
    case True
    moreover have "(m0(k \<mapsto> g i)) k \<noteq> None"
      by simp
    ultimately show ?thesis
      using Cons.prems(2) by (simp add: fold_dict_keeps)
  next
    case False
    then have "(i, h) \<in> set ihs"
      using Cons.prems(1) by simp
    from Cons.IH [OF this Cons.prems(2)] show ?thesis
      by simp
  qed
qed

lemma in_enumerate: "(i, h) \<in> set (enumerate 0 hs) \<longleftrightarrow> i < length hs \<and> hs ! i = h"
  by (auto simp: in_set_enumerate_eq)

lemma lookup_data_of_Some:
  assumes "lookup_data_of (header # rows) k = Some vs"
  shows "\<exists>j < length header. json_key (header ! j) = Some k \<and> vs = column_options j rows"
proof -
  have "Map.empty k = Some vs \<or>
      (\<exists>(i, h) \<in> set (enumerate 0 header). json_key h = Some k \<and> vs = column_options i rows)"
    using assms unfolding lookup_data_of_def list.case by (rule fold_dict_Some)
  then show ?thesis
    by (auto simp: in_enumerate)
qed

lemma lookup_data_of_dom:
  assumes "j < length header" "json_key (header ! j) = Some k"
  shows "lookup_data_of (header # rows) k \<noteq> None"
proof -
  have "(j, header ! j) \<in> set (enumerate 0 header)"
    using assms(1) by (simp add: in_enumerate)
  then show ?thesis
    unfolding lookup_data_of_def list.case using assms(2) by (rule fold_dict_dom)
qed

lemma dropdown_fold:
  "(\<lambda>(i, h) m. if truthy h then m(dict_key h \<mapsto> g i) else m) =
   (\<lambda>(i, h) m. case (if truthy h then Some (dict_key h) else None) of
                   None \<Rightarrow> m | Some k \<Rightarrow> m(k \<mapsto> g i))"
  by (auto simp: fun_eq_iff)

lemma dropdown_options_of_Some:
  assumes "dropdown_options_of (header # rows) k = Some vs"
  shows "\<exists>j < length header. truthy (header ! j) \<and> dict_key (header ! j) = k
           \<and> vs = column_options j rows"
proof -
  have "Map.empty k = Some vs \<or>
      (\<exists>(i, h) \<in> set (enumerate 0 header).
          (if truthy h then Some (dict_key h) else None) = Some k \<and> vs = column_options i rows)"
    using assms unfolding dropdown_options_of_def list.case dropdown_fold
    by (rule fold_dict_Some)
  then show ?thesis
    by (auto simp: in_enumerate split: if_splits)
qed

lemma dropdown_options_of_dom:
  assumes "j < length header" "truthy (header ! j)"
  shows "dropdown_options_of (header # rows) (dict_key (header ! j)) \<noteq> None"
proof -
  have "(j, header ! j) \<in> set (enumerate 0 header)"
    using assms(1) by (simp add: in_enumerate)
  moreover have "(if truthy (header ! j) then Some (dict_key (header ! j)) else None)
      = Some (dict_key (header ! j))"
    using assms(2) by simp
  ultimately show ?thesis
    unfolding dropdown_options_of_def list.case dropdown_fold by (rule fold_dict_dom)
qed

lemma get_rowdown_data_success:
  "get_rowdown_data f = Inr lookup_data \<longleftrightarrow>
     (\<exists>w options_sheet. f = Some w \<and> w SALE_ROWDOWN_NAME = Some options_sheet
        \<and> lookup_data = lookup_data_of (ws_values options_sheet))"
  by (auto simp: get_rowdown_data_def load_workbook_def split: option.splits)

section \<open>Claim C5\<close>

text \<open>
  C5. The lookup lists. For every column index, the list that the loop of the source
  extracts is the list of the specification: the trimmed values of the column, without
  the empty ones (a cell of white space only is empty after trimming), each kept at its
  first occurrence and in that order; so it has no repeats and holds exactly the
  non-empty trimmed values. The column b, a, b, empty, a, c gives b, a, c; trimming
  takes away the white space of Unicode (an ideographic space, a no-break space) as well
  as a blank, repeats are told apart by case, and a number counts by its text. Both
  handlers store such lists: every list of lookupData in \<^verbatim>\<open>get_rowdown_data\<close> is the
  list of a column whose header is one of the five known labels, under that label's key,
  and every list of dropdownOptions in \<^verbatim>\<open>get_data\<close> is the list of a column whose
  header is not empty, under that header; and each such column has its key in the
  result.
\<close>

theorem C5_lookup_lists:
  "column_options i rows = spec_lookup_list i rows
   \<and> distinct (column_options i rows)
   \<and> set (column_options i rows) = {v \<in> set (column_values i rows). v \<noteq> []}
   \<and> column_options 0 [[CStr (asc ''b'')], [CStr (asc ''a'')], [CStr (asc ''b'')], [CStr []],
                        [CStr (asc ''a'')], [CStr (asc ''c'')]]
       = [asc ''b'', asc ''a'', asc ''c'']
   \<and> column_options 0 [[CStr (asc ''b'')], [CStr [0x3000]], [CStr ([0x3000] @ asc ''a'' @ [0xA0])],
                        [CStr (asc '' b'')], [CStr [0x85, 0x2003]], [CStr (asc ''a'')],
                        [CInt 7], [CNone], [CStr (asc ''B'')]]
       = [asc ''b'', asc ''a'', asc ''7'', asc ''B'']
   \<and> (get_rowdown_data f = Inr lookup_data \<and> lookup_data k = Some vs \<longrightarrow>
        (\<exists>w options_sheet options_header options_data_rows j.
            f = Some w \<and> w SALE_ROWDOWN_NAME = Some options_sheet
            \<and> ws_values options_sheet = options_header # options_data_rows
            \<and> j < length options_header \<and> json_key (options_header ! j) = Some k
            \<and> vs = spec_lookup_list j options_data_rows))
   \<and> (get_rowdown_data f = Inr lookup_data \<and> f = Some w \<and> w SALE_ROWDOWN_NAME = Some sheet0
        \<and> ws_values sheet0 = header0 # rows0 \<and> j0 < length header0
        \<and> json_key (header0 ! j0) = Some k \<longrightarrow> lookup_data k \<noteq> None)
   \<and> (get_data f = Inr res \<and> dropdownOptions res hk = Some vs \<longrightarrow>
        (\<exists>w options_sheet options_header options_data_rows j.
            f = Some w \<and> w OPTIONS_SHEET_NAME = Some options_sheet
            \<and> ws_values options_sheet = options_header # options_data_rows
            \<and> j < length options_header \<and> truthy (options_header ! j)
            \<and> dict_key (options_header ! j) = hk
            \<and> vs = spec_lookup_list j options_data_rows))
   \<and> (get_data f = Inr res \<and> f = Some w \<and> w OPTIONS_SHEET_NAME = Some sheet0
        \<and> ws_values sheet0 = header0 # rows0 \<and> j0 < length header0
        \<and> truthy (header0 ! j0) \<longrightarrow> dropdownOptions res (dict_key (header0 ! j0)) \<noteq> None)"
proof -
  have ex: "column_options 0 [[CStr (asc ''b'')], [CStr (asc ''a'')], [CStr (asc ''b'')], [CStr []],
                        [CStr (asc ''a'')], [CStr (asc ''c'')]]
       = [asc ''b'', asc ''a'', asc ''c'']"
    by (simp add: column_options_def strip_def is_space_def asc_def)
  have s7: "str_int 7 = asc ''7''"
    unfolding str_int_def str_nat_def by (subst digits_rev.simps) (simp add: digit_char_def asc_def)
  have ex2: "column_options 0 [[CStr (asc ''b'')], [CStr [0x3000]],
                        [CStr ([0x3000] @ asc ''a'' @ [0xA0])],
                        [CStr (asc '' b'')], [CStr [0x85, 0x2003]], [CStr (asc ''a'')],
                        [CInt 7], [CNone], [CStr (asc ''B'')]]
       = [asc ''b'', asc ''a'', asc ''7'', asc ''B'']"
    by (simp add: column_options_def strip_def is_space_def s7 asc_def)
  have keyed: "\<exists>w options_sheet options_header options_data_rows j.
            f = Some w \<and> w SALE_ROWDOWN_NAME = Some options_sheet
            \<and> ws_values options_sheet = options_header # options_data_rows
            \<and> j < length options_header \<and> json_key (options_header ! j) = Some k
            \<and> vs = spec_lookup_list j options_data_rows"
    if g: "get_rowdown_data f = Inr lookup_data" and l: "lookup_data k = Some vs"
  proof -
    obtain w options_sheet where h: "f = Some w" "w SALE_ROWDOWN_NAME = Some options_sheet"
      "lookup_data = lookup_data_of (ws_values options_sheet)"
      using g unfolding get_rowdown_data_success by blast
    obtain options_header options_data_rows
      where v: "ws_values options_sheet = options_header # options_data_rows"
      using l h(3) by (cases "ws_values options_sheet") (auto simp: lookup_data_of_def)
    obtain j where "j < length options_header" "json_key (options_header ! j) = Some k"
      "vs = column_options j options_data_rows"
      using lookup_data_of_Some [of options_header options_data_rows k vs] l h(3) v by auto
    then show ?thesis
      using h(1,2) v by (auto simp: column_options_spec)
  qed
  have keyed_dom: "lookup_data k \<noteq> None"
    if "get_rowdown_data f = Inr lookup_data" "f = Some w" "w SALE_ROWDOWN_NAME = Some sheet0"
      "ws_values sheet0 = header0 # rows0" "j0 < length header0"
      "json_key (header0 ! j0) = Some k"
    using that lookup_data_of_dom [of j0 header0 k rows0]
    by (auto simp: get_rowdown_data_success)
  have unkeyed: "\<exists>w options_sheet options_header options_data_rows j.
            f = Some w \<and> w OPTIONS_SHEET_NAME = Some options_sheet
            \<and> ws_values options_sheet = options_header # options_data_rows
            \<and> j < length options_header \<and> truthy (options_header ! j)
            \<and> dict_key (options_header ! j) = hk
            \<and> vs = spec_lookup_list j options_data_rows"
    if g: "get_data f = Inr res" and l: "dropdownOptions res hk = Some vs"
  proof -
    obtain w options_sheet where h: "f = Some w" "w OPTIONS_SHEET_NAME = Some options_sheet"
      "dropdownOptions res = dropdown_options_of (ws_values options_sheet)"
      using g unfolding get_data_success by auto
    obtain options_header options_data_rows
      where v: "ws_values options_sheet = options_header # options_data_rows"
      using l h(3) by (cases "ws_values options_sheet") (auto simp: dropdown_options_of_def)
    obtain j where "j < length options_header" "truthy (options_header ! j)"
      "dict_key (options_header ! j) = hk" "vs = column_options j options_data_rows"
      using dropdown_options_of_Some [of options_header options_data_rows hk vs] l h(3) v
      by auto
    then show ?thesis
      using h(1,2) v by (auto simp: column_options_spec)
  qed
  have unkeyed_dom: "dropdownOptions res (dict_key (header0 ! j0)) \<noteq> None"
    if "get_data f = Inr res" "f = Some w" "w OPTIONS_SHEET_NAME = Some sheet0"
      "ws_values sheet0 = header0 # rows0" "j0 < length header0" "truthy (header0 ! j0)"
    using that dropdown_options_of_dom [of j0 header0 rows0]
    by (auto simp: get_data_success)
  show ?thesis
    using column_options_spec [of i rows] distinct_column_options [of i rows]
      set_column_options [of i rows] ex ex2 keyed keyed_dom unkeyed unkeyed_dom
    by (intro conjI impI) blast+
qed

theorem C5_lookup_lists_witness:
  "get_rowdown_data (Some [SALE_ROWDOWN_NAME \<mapsto>
       [[CStr HDR_PRICING_UNIT], [CStr (asc ''b'')], [CStr (asc ''a'')], [CStr (asc '' b'')], [CStr [0x3000]],
        [CStr (asc ''a'')], [CStr (asc ''c'')]]])
     = Inr (lookup_data_of (ws_values
       [[CStr HDR_PRICING_UNIT], [CStr (asc ''b'')], [CStr (asc ''a'')], [CStr (asc '' b'')], [CStr [0x3000]],
        [CStr (asc ''a'')], [CStr (asc ''c'')]]))
   \<and> lookup_data_of (ws_values
       [[CStr HDR_PRICING_UNIT], [CStr (asc ''b'')], [CStr (asc ''a'')], [CStr (asc '' b'')], [CStr [0x3000]],
        [CStr (asc ''a'')], [CStr (asc ''c'')]]) ''pricingUnits'' = Some [asc ''b'', asc ''a'', asc ''c'']
   \<and> (\<exists>w options_sheet options_header options_data_rows j.
          Some [SALE_ROWDOWN_NAME \<mapsto>
             [[CStr HDR_PRICING_UNIT], [CStr (asc ''b'')], [CStr (asc ''a'')], [CStr (asc '' b'')], [CStr [0x3000]],
              [CStr (asc ''a'')], [CStr (asc ''c'')]]] = Some w
          \<and> w SALE_ROWDOWN_NAME = Some options_sheet
          \<and> ws_values options_sheet = options_header # options_data_rows
          \<and> j < length options_header
          \<and> json_key (options_header ! j) = Some ''pricingUnits''
          \<and> [asc ''b'', asc ''a'', asc ''c''] = spec_lookup_list j options_data_rows)"
proof -
  let ?s = "[[CStr HDR_PRICING_UNIT], [CStr (asc ''b'')], [CStr (asc ''a'')], [CStr (asc '' b'')], [CStr [0x3000]],
             [CStr (asc ''a'')], [CStr (asc ''c'')]]"
  let ?f = "Some [SALE_ROWDOWN_NAME \<mapsto> ?s]"
  have g: "get_rowdown_data ?f = Inr (lookup_data_of (ws_values ?s))"
    by (simp add: get_rowdown_data_def load_workbook_def)
  have v: "ws_values ?s = ?s"
    by (simp add: ws_values_def row_cells_def pad_def max_column_def)
  have l: "lookup_data_of (ws_values ?s) ''pricingUnits'' = Some [asc ''b'', asc ''a'', asc ''c'']"
    unfolding v
    by (simp add: lookup_data_of_def enumerate_eq_zip HEADER_TO_JSON_KEY_def
        column_options_def strip_def is_space_def asc_def HDR_PRICING_UNIT_def)
  show ?thesis
    using g l
      C5_lookup_lists [where f = ?f and lookup_data = "lookup_data_of (ws_values ?s)"
        and k = "''pricingUnits''" and vs = "[asc ''b'', asc ''a'', asc ''c'']"]
    by blast
qed

section \<open>Facts about get\_customers\<close>

lemma strip_Nil_iff: "strip s = [] \<longleftrightarrow> (\<forall>c \<in> set s. is_space c)"
proof
  assume "strip s = []"
  then have "\<forall>c \<in> set (dropWhile is_space s). is_space c"
    by (simp add: strip_def dropWhile_eq_Nil_conv)
  then have "dropWhile is_space s = []"
    using hd_dropWhile [of is_space s] by (cases "dropWhile is_space s") auto
  then show "\<forall>c \<in> set s. is_space c"
    by (simp add: dropWhile_eq_Nil_conv)
next
  assume "\<forall>c \<in> set s. is_space c"
  then have d: "dropWhile is_space s = []"
    by (simp add: dropWhile_eq_Nil_conv)
  show "strip s = []"
    by (simp only: strip_def d rev.simps dropWhile.simps)
qed

lemma customers_loop_filter:
  "customers_loop ul iq nq pq aq headers rows customers =
     customers @ map formatted_customer
       (filter (is_match ul iq nq pq aq)
          (map (\<lambda>row. customer_info headers (map str_or_empty row)) rows))"
  by (induction rows arbitrary: customers) (simp_all add: Let_def)

lemma is_match_or:
  "is_match ul iq nq pq aq info \<longleftrightarrow>
     (iq \<noteq> [] \<and> prefix iq (lower ul (get_or_empty info HDR_CUSTOMER_ID)))
   \<or> (nq \<noteq> [] \<and> prefix nq (lower ul (get_or_empty info HDR_CUSTOMER_NAME)))
   \<or> (pq \<noteq> [] \<and> prefix pq (lower ul (get_or_empty info HDR_CUSTOMER_PHONE)))
   \<or> (aq \<noteq> [] \<and> prefix aq (lower ul (get_or_empty info HDR_ADDRESS)))"
  by (auto simp: is_match_def Let_def startswith_def)

text \<open>
  A text with a character outside ASCII is lower-cased by the tables of Unicode: with the
  lower case of a capital E acute, the query of that letter matches the name that begins
  with it.
\<close>

lemma is_match_other_case:
  assumes "ul [0xC9] = [0xE9]"
    and "ul [0xC9, 99, 111, 108, 101] = [0xE9, 99, 111, 108, 101]"
  shows "is_match ul [] (lower ul (strip [0x20, 0xC9])) [] []
           [HDR_CUSTOMER_NAME \<mapsto> [0xC9, 99, 111, 108, 101]]"
proof -
  have "strip [0x20, 0xC9] = [0xC9]"
    by (simp add: strip_def is_space_def)
  moreover have "lower ul [0xC9] = [0xE9]"
    using assms(1) by (simp add: lower_def)
  moreover have "lower ul [0xC9, 99, 111, 108, 101] = [0xE9, 99, 111, 108, 101]"
    using assms(2) by (simp add: lower_def)
  moreover have "get_or_empty [HDR_CUSTOMER_NAME \<mapsto> [0xC9, 99, 111, 108, 101]]
      HDR_CUSTOMER_NAME = [0xC9, 99, 111, 108, 101]"
    by (simp add: get_or_empty_def)
  ultimately show ?thesis
    by (simp add: is_match_or)
qed

section \<open>Claim C6\<close>

text \<open>
  C6. The prefix filter fails closed: when each of the four query strings (id, name,
  phone, address) is absent, empty or made of white space only (the white space of
  Unicode, which \<^verbatim>\<open>strip\<close> takes away), \<^verbatim>\<open>get_customers\<close> answers with the empty list,
  whatever the file holds, and without the file.
\<close>

theorem C6_empty_queries_empty_result:
  assumes "\<forall>name \<in> {asc ''id_query'', asc ''name_query'', asc ''phone_query'',
                      asc ''address_query''}.
             \<forall>c \<in> set (get_or_empty request_args name). is_space c"
  shows "get_customers ul request_args f = Inr []"
proof -
  have "strip (get_or_empty request_args (asc ''id_query'')) = []"
    "strip (get_or_empty request_args (asc ''name_query'')) = []"
    "strip (get_or_empty request_args (asc ''phone_query'')) = []"
    "strip (get_or_empty request_args (asc ''address_query'')) = []"
    using assms by (simp_all add: strip_Nil_iff)
  then have "query_arg ul request_args (asc ''id_query'') = []"
    "query_arg ul request_args (asc ''name_query'') = []"
    "query_arg ul request_args (asc ''phone_query'') = []"
    "query_arg ul request_args (asc ''address_query'') = []"
    by (simp_all add: query_arg_def lower_def)
  then show ?thesis
    by (simp add: get_customers_def)
qed

theorem C6_empty_queries_empty_result_witness:
  "get_customers (\<lambda>s. s)
     [asc ''id_query'' \<mapsto> [0x20, 0x3000], asc ''name_query'' \<mapsto> [],
      asc ''phone_query'' \<mapsto> [0xA0, 0x09, 0x2003]]
     (Some [CUSTOMER_SHEET_NAME \<mapsto>
        [[CStr HDR_CUSTOMER_ID, CStr HDR_CUSTOMER_NAME, CStr HDR_CUSTOMER_PHONE, CStr HDR_ADDRESS],
         [CStr (asc ''C100''), CStr (asc ''Acme Corp''), CStr (asc ''555''),
          CStr (asc ''1 Main St'')]]])
   = Inr []"
proof -
  have "\<forall>name \<in> {asc ''id_query'', asc ''name_query'', asc ''phone_query'',
                  asc ''address_query''}.
          \<forall>c \<in> set (get_or_empty
                       [asc ''id_query'' \<mapsto> [0x20, 0x3000], asc ''name_query'' \<mapsto> [],
                        asc ''phone_query'' \<mapsto> [0xA0, 0x09, 0x2003]] name).
            is_space c"
    by (simp add: get_or_empty_def is_space_def asc_def)
  then show ?thesis
    by (rule C6_empty_queries_empty_result)
qed

lemma fold_assign_other:
  "k \<notin> set hs \<Longrightarrow>
   fold (\<lambda>(i, header) info. info(header \<mapsto> g i)) (enumerate n hs) m k = m k"
  by (induction hs arbitrary: n m) auto

lemma fold_assign_last:
  "j < length hs \<Longrightarrow> \<forall>j'. j < j' \<and> j' < length hs \<longrightarrow> hs ! j' \<noteq> hs ! j \<Longrightarrow>
   fold (\<lambda>(i, header) info. info(header \<mapsto> g i)) (enumerate n hs) m (hs ! j) = Some (g (n + j))"
proof (induction hs arbitrary: n m j)
  case Nil
  then show ?case by simp
next
  case (Cons h hs)
  show ?case
  proof (cases j)
    case 0
    have "h \<notin> set hs"
    proof
      assume "h \<in> set hs"
      then obtain i where "i < length hs" "hs ! i = h"
        by (auto simp: in_set_conv_nth)
      then show False
        using Cons.prems(2) [rule_format, of "Suc i"] 0 by simp
    qed
    then have "fold (\<lambda>(i, header) info. info(header \<mapsto> g i)) (enumerate (Suc n) hs)
                 (m(h \<mapsto> g n)) h = (m(h \<mapsto> g n)) h"
      by (rule fold_assign_other)
    then show ?thesis
      using 0 by (simp del: fun_upd_apply) simp
  next
    case (Suc j0)
    have "j0 < length hs"
      using Cons.prems(1) Suc by simp
    moreover have "\<forall>j'. j0 < j' \<and> j' < length hs \<longrightarrow> hs ! j' \<noteq> hs ! j0"
    proof (intro allI impI)
      fix j'
      assume "j0 < j' \<and> j' < length hs"
      then show "hs ! j' \<noteq> hs ! j0"
        using Cons.prems(2) [rule_format, of "Suc j'"] Suc by simp
    qed
    ultimately show ?thesis
      using Cons.IH [of j0 "Suc n"] Suc by simp
  qed
qed

lemma customer_info_last:
  assumes "j < length headers"
    and "\<forall>j'. j < j' \<and> j' < length headers \<longrightarrow> headers ! j' \<noteq> headers ! j"
  shows "get_or_empty (customer_info headers row_data) (headers ! j) =
           (if j < length row_data then row_data ! j else [])"
  using fold_assign_last [OF assms,
      where g = "\<lambda>i. if i < length row_data then row_data ! i else []" and n = 0
        and m = Map.empty]
  by (simp add: customer_info_def get_or_empty_def)

lemma customer_info_missing:
  "k \<notin> set headers \<Longrightarrow> get_or_empty (customer_info headers row_data) k = []"
  using fold_assign_other [where g = "\<lambda>i. if i < length row_data then row_data ! i else []"
      and n = 0 and m = Map.empty and k = k and hs = headers]
  by (simp add: customer_info_def get_or_empty_def)

lemma customer_headers:
  "map str_cell (ws_row1
      ([CStr HDR_CUSTOMER_ID, CStr HDR_CUSTOMER_NAME, CStr HDR_CUSTOMER_PHONE, CStr HDR_ADDRESS]
       # [[a, b, c, d]]))
   = [HDR_CUSTOMER_ID, HDR_CUSTOMER_NAME, HDR_CUSTOMER_PHONE, HDR_ADDRESS]"
  by (simp add: ws_row1_def row_cells_def pad_def max_column_def)

lemma customer_rows:
  "iter_rows_min2
      ([CStr HDR_CUSTOMER_ID, CStr HDR_CUSTOMER_NAME, CStr HDR_CUSTOMER_PHONE, CStr HDR_ADDRESS]
       # [[a, b, c, d]])
   = [[a, b, c, d]]"
  by (simp add: iter_rows_min2_def row_cells_def pad_def max_column_def)

lemma customer_info_four:
  "customer_info [HDR_CUSTOMER_ID, HDR_CUSTOMER_NAME, HDR_CUSTOMER_PHONE, HDR_ADDRESS]
      [a, b, c, d]
   = [HDR_CUSTOMER_ID \<mapsto> a, HDR_CUSTOMER_NAME \<mapsto> b, HDR_CUSTOMER_PHONE \<mapsto> c,
      HDR_ADDRESS \<mapsto> d]"
  by (simp add: customer_info_def enumerate_eq_zip)

lemma customer_values:
  "get_or_empty [HDR_CUSTOMER_ID \<mapsto> a, HDR_CUSTOMER_NAME \<mapsto> b, HDR_CUSTOMER_PHONE \<mapsto> c,
      HDR_ADDRESS \<mapsto> d] HDR_CUSTOMER_ID = a"
  "get_or_empty [HDR_CUSTOMER_ID \<mapsto> a, HDR_CUSTOMER_NAME \<mapsto> b, HDR_CUSTOMER_PHONE \<mapsto> c,
      HDR_ADDRESS \<mapsto> d] HDR_CUSTOMER_NAME = b"
  "get_or_empty [HDR_CUSTOMER_ID \<mapsto> a, HDR_CUSTOMER_NAME \<mapsto> b, HDR_CUSTOMER_PHONE \<mapsto> c,
      HDR_ADDRESS \<mapsto> d] HDR_CUSTOMER_PHONE = c"
  "get_or_empty [HDR_CUSTOMER_ID \<mapsto> a, HDR_CUSTOMER_NAME \<mapsto> b, HDR_CUSTOMER_PHONE \<mapsto> c,
      HDR_ADDRESS \<mapsto> d] HDR_ADDRESS = d"
  by (simp_all add: get_or_empty_def HDR_CUSTOMER_ID_def HDR_CUSTOMER_NAME_def
      HDR_CUSTOMER_PHONE_def HDR_ADDRESS_def)

text \<open>
  One customer row under the four headers, and a name query: the row is returned, with
  each field as trimmed text, exactly when the trimmed, lower-cased query is not empty
  and is a prefix of the lower-cased trimmed name.
\<close>

lemma get_customers_one_row:
  "get_customers ul [asc ''name_query'' \<mapsto> q]
     (Some [CUSTOMER_SHEET_NAME \<mapsto>
        [CStr HDR_CUSTOMER_ID, CStr HDR_CUSTOMER_NAME, CStr HDR_CUSTOMER_PHONE, CStr HDR_ADDRESS]
        # [[a, b, c, d]]])
   = Inr (if lower ul (strip q) \<noteq> []
            \<and> prefix (lower ul (strip q))
                 (lower ul (strip (if truthy b then str_cell b else [])))
          then [[(''id'', strip (if truthy a then str_cell a else [])),
                 (''name'', strip (if truthy b then str_cell b else [])),
                 (''phone'', strip (if truthy c then str_cell c else [])),
                 (''address'', strip (if truthy d then str_cell d else []))]]
          else [])"
proof -
  have q: "query_arg ul [asc ''name_query'' \<mapsto> q] (asc ''name_query'') = lower ul (strip q)"
    "query_arg ul [asc ''name_query'' \<mapsto> q] (asc ''id_query'') = []"
    "query_arg ul [asc ''name_query'' \<mapsto> q] (asc ''phone_query'') = []"
    "query_arg ul [asc ''name_query'' \<mapsto> q] (asc ''address_query'') = []"
    by (simp_all add: query_arg_def get_or_empty_def strip_def lower_def asc_def)
  show ?thesis
    unfolding get_customers_def q Let_def load_workbook_def wb_get_def
    by (simp add: customer_headers customer_rows customer_info_four is_match_or
        customer_values formatted_customer_def str_or_empty_def)
qed

lemma lower_ascii_text: "\<forall>c \<in> set s. c < 128 \<Longrightarrow> lower ul s = map lower_ascii s"
  by (simp add: lower_def)

lemma digits_rev_small: "n < 10 \<Longrightarrow> digits_rev n = [digit_char n]"
  by (subst digits_rev.simps) simp

lemma digits_rev_step:
  "10 \<le> n \<Longrightarrow> digits_rev n = digit_char (n mod 10) # digits_rev (n div 10)"
  by (subst digits_rev.simps) simp

lemma str_int_555: "str_int 555 = asc ''555''"
  by (simp add: str_int_def str_nat_def digits_rev_step digits_rev_small digit_char_def asc_def)

section \<open>Claim C7\<close>

text \<open>
  C7. The prefix filter. A query is the request argument, trimmed and then lower-cased;
  the value of a field is the text of the cell under the header of that name (the last
  one, if a header is repeated), trimmed, the empty string for an empty cell or when no
  header has the name, and it is lower-cased for the comparison only. A row matches
  exactly when at least one of the four queries is not empty and is a prefix of the
  lower-cased value of its field; the four tests of the source, made in order and
  skipped after the first success, are this disjunction. With at least one query not
  empty, \<^verbatim>\<open>get_customers\<close> returns the rows that match, in the order of the sheet, each
  as id, name, phone and address. The customer C100, Acme Corp, 555, 1 Main St is
  returned for the name query acme and not for cme; it is returned for the query ACME
  with white space around it; and a row whose cells have white space around the text,
  a number and an empty cell is returned with the trimmed texts.
\<close>

theorem C7_prefix_match:
  "(is_match ul iq nq pq aq info \<longleftrightarrow>
       (iq \<noteq> [] \<and> prefix iq (lower ul (get_or_empty info HDR_CUSTOMER_ID)))
     \<or> (nq \<noteq> [] \<and> prefix nq (lower ul (get_or_empty info HDR_CUSTOMER_NAME)))
     \<or> (pq \<noteq> [] \<and> prefix pq (lower ul (get_or_empty info HDR_CUSTOMER_PHONE)))
     \<or> (aq \<noteq> [] \<and> prefix aq (lower ul (get_or_empty info HDR_ADDRESS))))
   \<and> (f = Some w \<and> w CUSTOMER_SHEET_NAME = Some customer_sheet
        \<and> iq = lower ul (strip (get_or_empty request_args (asc ''id_query'')))
        \<and> nq = lower ul (strip (get_or_empty request_args (asc ''name_query'')))
        \<and> pq = lower ul (strip (get_or_empty request_args (asc ''phone_query'')))
        \<and> aq = lower ul (strip (get_or_empty request_args (asc ''address_query'')))
        \<and> (iq \<noteq> [] \<or> nq \<noteq> [] \<or> pq \<noteq> [] \<or> aq \<noteq> []) \<longrightarrow>
        get_customers ul request_args f =
          Inr (map (\<lambda>info. [(''id'', get_or_empty info HDR_CUSTOMER_ID),
                             (''name'', get_or_empty info HDR_CUSTOMER_NAME),
                             (''phone'', get_or_empty info HDR_CUSTOMER_PHONE),
                             (''address'', get_or_empty info HDR_ADDRESS)])
                 (filter (is_match ul iq nq pq aq)
                    (map (\<lambda>row. customer_info (map str_cell (ws_row1 customer_sheet))
                                   (map (\<lambda>v. strip (if truthy v then str_cell v else [])) row))
                         (iter_rows_min2 customer_sheet)))))
   \<and> (j < length headers \<and> (\<forall>j'. j < j' \<and> j' < length headers \<longrightarrow> headers ! j' \<noteq> headers ! j)
        \<and> j < length row \<longrightarrow>
        get_or_empty (customer_info headers
                        (map (\<lambda>v. strip (if truthy v then str_cell v else [])) row))
                     (headers ! j)
          = strip (if truthy (row ! j) then str_cell (row ! j) else []))
   \<and> (k \<notin> set headers \<longrightarrow> get_or_empty (customer_info headers row_data) k = [])
   \<and> get_customers ul [asc ''name_query'' \<mapsto> asc ''acme'']
        (Some [CUSTOMER_SHEET_NAME \<mapsto>
           [[CStr HDR_CUSTOMER_ID, CStr HDR_CUSTOMER_NAME, CStr HDR_CUSTOMER_PHONE,
             CStr HDR_ADDRESS],
            [CStr (asc ''C100''), CStr (asc ''Acme Corp''), CStr (asc ''555''),
             CStr (asc ''1 Main St'')]]])
       = Inr [[(''id'', asc ''C100''), (''name'', asc ''Acme Corp''), (''phone'', asc ''555''),
               (''address'', asc ''1 Main St'')]]
   \<and> get_customers ul [asc ''name_query'' \<mapsto> asc ''cme'']
        (Some [CUSTOMER_SHEET_NAME \<mapsto>
           [[CStr HDR_CUSTOMER_ID, CStr HDR_CUSTOMER_NAME, CStr HDR_CUSTOMER_PHONE,
             CStr HDR_ADDRESS],
            [CStr (asc ''C100''), CStr (asc ''Acme Corp''), CStr (asc ''555''),
             CStr (asc ''1 Main St'')]]])
       = Inr []
   \<and> get_customers ul [asc ''name_query'' \<mapsto> [0x3000] @ asc '' ACME  '']
        (Some [CUSTOMER_SHEET_NAME \<mapsto>
           [[CStr HDR_CUSTOMER_ID, CStr HDR_CUSTOMER_NAME, CStr HDR_CUSTOMER_PHONE,
             CStr HDR_ADDRESS],
            [CStr (asc ''C100''), CStr (asc ''Acme Corp''), CStr (asc ''555''),
             CStr (asc ''1 Main St'')]]])
       = Inr [[(''id'', asc ''C100''), (''name'', asc ''Acme Corp''), (''phone'', asc ''555''),
               (''address'', asc ''1 Main St'')]]
   \<and> get_customers ul [asc ''name_query'' \<mapsto> asc ''acme c'']
        (Some [CUSTOMER_SHEET_NAME \<mapsto>
           [[CStr HDR_CUSTOMER_ID, CStr HDR_CUSTOMER_NAME, CStr HDR_CUSTOMER_PHONE,
             CStr HDR_ADDRESS],
            [CStr (asc '' C100''), CStr ([0xA0] @ asc '' Acme Corp  ''), CInt 555, CNone]]])
       = Inr [[(''id'', asc ''C100''), (''name'', asc ''Acme Corp''), (''phone'', asc ''555''),
               (''address'', [])]]"
proof -
  let ?hdr = "[CStr HDR_CUSTOMER_ID, CStr HDR_CUSTOMER_NAME, CStr HDR_CUSTOMER_PHONE,
               CStr HDR_ADDRESS]"
  let ?row = "[CStr (asc ''C100''), CStr (asc ''Acme Corp''), CStr (asc ''555''),
               CStr (asc ''1 Main St'')]"
  have all: "get_customers ul request_args f =
          Inr (map (\<lambda>info. [(''id'', get_or_empty info HDR_CUSTOMER_ID),
                             (''name'', get_or_empty info HDR_CUSTOMER_NAME),
                             (''phone'', get_or_empty info HDR_CUSTOMER_PHONE),
                             (''address'', get_or_empty info HDR_ADDRESS)])
                 (filter (is_match ul iq nq pq aq)
                    (map (\<lambda>row. customer_info (map str_cell (ws_row1 customer_sheet))
                                   (map (\<lambda>v. strip (if truthy v then str_cell v else [])) row))
                         (iter_rows_min2 customer_sheet))))"
    if "f = Some w" "w CUSTOMER_SHEET_NAME = Some customer_sheet"
      "iq = lower ul (strip (get_or_empty request_args (asc ''id_query'')))"
      "nq = lower ul (strip (get_or_empty request_args (asc ''name_query'')))"
      "pq = lower ul (strip (get_or_empty request_args (asc ''phone_query'')))"
      "aq = lower ul (strip (get_or_empty request_args (asc ''address_query'')))"
      "iq \<noteq> [] \<or> nq \<noteq> [] \<or> pq \<noteq> [] \<or> aq \<noteq> []"
  proof -
    have q: "query_arg ul request_args (asc ''id_query'') = iq"
      "query_arg ul request_args (asc ''name_query'') = nq"
      "query_arg ul request_args (asc ''phone_query'') = pq"
      "query_arg ul request_args (asc ''address_query'') = aq"
      using that(3-6) by (simp_all add: query_arg_def)
    have s: "str_or_empty = (\<lambda>v. strip (if truthy v then str_cell v else []))"
      by (simp add: fun_eq_iff str_or_empty_def)
    have fc: "formatted_customer = (\<lambda>info. [(''id'', get_or_empty info HDR_CUSTOMER_ID),
                             (''name'', get_or_empty info HDR_CUSTOMER_NAME),
                             (''phone'', get_or_empty info HDR_CUSTOMER_PHONE),
                             (''address'', get_or_empty info HDR_ADDRESS)])"
      by (simp add: fun_eq_iff formatted_customer_def)
    have "get_customers ul request_args f =
        Inr (map formatted_customer
               (filter (is_match ul iq nq pq aq)
                  (map (\<lambda>row. customer_info (map str_cell (ws_row1 customer_sheet))
                                             (map str_or_empty row))
                       (iter_rows_min2 customer_sheet))))"
      using that(1,2,7) unfolding get_customers_def q
      by (auto simp: load_workbook_def wb_get_def Let_def customers_loop_filter)
    then show ?thesis
      by (simp only: s fc)
  qed
  have field: "get_or_empty (customer_info headers
                        (map (\<lambda>v. strip (if truthy v then str_cell v else [])) row))
                     (headers ! j)
          = strip (if truthy (row ! j) then str_cell (row ! j) else [])"
    if "j < length headers" "\<forall>j'. j < j' \<and> j' < length headers \<longrightarrow> headers ! j' \<noteq> headers ! j"
      "j < length row"
    using customer_info_last [OF that(1,2),
        of "map (\<lambda>v. strip (if truthy v then str_cell v else [])) row"] that(3)
    by simp
  have ex1: "get_customers ul [asc ''name_query'' \<mapsto> asc ''acme'']
        (Some [CUSTOMER_SHEET_NAME \<mapsto> [?hdr, ?row]])
       = Inr [[(''id'', asc ''C100''), (''name'', asc ''Acme Corp''), (''phone'', asc ''555''),
               (''address'', asc ''1 Main St'')]]"
    by (simp add: get_customers_one_row)
      (simp add: strip_def is_space_def lower_def lower_ascii_def asc_def)
  have ex2: "get_customers ul [asc ''name_query'' \<mapsto> asc ''cme'']
        (Some [CUSTOMER_SHEET_NAME \<mapsto> [?hdr, ?row]])
       = Inr []"
    by (simp add: get_customers_one_row)
      (simp add: strip_def is_space_def lower_def lower_ascii_def asc_def)
  have ex3: "get_customers ul [asc ''name_query'' \<mapsto> [0x3000] @ asc '' ACME  '']
        (Some [CUSTOMER_SHEET_NAME \<mapsto> [?hdr, ?row]])
       = Inr [[(''id'', asc ''C100''), (''name'', asc ''Acme Corp''), (''phone'', asc ''555''),
               (''address'', asc ''1 Main St'')]]"
    by (simp add: get_customers_one_row)
      (simp add: strip_def is_space_def lower_def lower_ascii_def asc_def)
  have ex4: "get_customers ul [asc ''name_query'' \<mapsto> asc ''acme c'']
        (Some [CUSTOMER_SHEET_NAME \<mapsto>
           [?hdr, [CStr (asc '' C100''), CStr ([0xA0] @ asc '' Acme Corp  ''), CInt 555,
                   CNone]]])
       = Inr [[(''id'', asc ''C100''), (''name'', asc ''Acme Corp''), (''phone'', asc ''555''),
               (''address'', [])]]"
    by (simp add: get_customers_one_row str_int_555)
      (simp add: strip_def is_space_def lower_def lower_ascii_def asc_def)
  have c1: "(is_match ul iq nq pq aq info \<longleftrightarrow>
       (iq \<noteq> [] \<and> prefix iq (lower ul (get_or_empty info HDR_CUSTOMER_ID)))
     \<or> (nq \<noteq> [] \<and> prefix nq (lower ul (get_or_empty info HDR_CUSTOMER_NAME)))
     \<or> (pq \<noteq> [] \<and> prefix pq (lower ul (get_or_empty info HDR_CUSTOMER_PHONE)))
     \<or> (aq \<noteq> [] \<and> prefix aq (lower ul (get_or_empty info HDR_ADDRESS))))"
    by (rule is_match_or)
  have c2: "(f = Some w \<and> w CUSTOMER_SHEET_NAME = Some customer_sheet
        \<and> iq = lower ul (strip (get_or_empty request_args (asc ''id_query'')))
        \<and> nq = lower ul (strip (get_or_empty request_args (asc ''name_query'')))
        \<and> pq = lower ul (strip (get_or_empty request_args (asc ''phone_query'')))
        \<and> aq = lower ul (strip (get_or_empty request_args (asc ''address_query'')))
        \<and> (iq \<noteq> [] \<or> nq \<noteq> [] \<or> pq \<noteq> [] \<or> aq \<noteq> []) \<longrightarrow>
        get_customers ul request_args f =
          Inr (map (\<lambda>info. [(''id'', get_or_empty info HDR_CUSTOMER_ID),
                             (''name'', get_or_empty info HDR_CUSTOMER_NAME),
                             (''phone'', get_or_empty info HDR_CUSTOMER_PHONE),
                             (''address'', get_or_empty info HDR_ADDRESS)])
                 (filter (is_match ul iq nq pq aq)
                    (map (\<lambda>row. customer_info (map str_cell (ws_row1 customer_sheet))
                                   (map (\<lambda>v. strip (if truthy v then str_cell v else [])) row))
                         (iter_rows_min2 customer_sheet)))))"
    by (intro impI, elim conjE, rule all) assumption+
  have c3: "(j < length headers \<and> (\<forall>j'. j < j' \<and> j' < length headers \<longrightarrow> headers ! j' \<noteq> headers ! j)
        \<and> j < length row \<longrightarrow>
        get_or_empty (customer_info headers
                        (map (\<lambda>v. strip (if truthy v then str_cell v else [])) row))
                     (headers ! j)
          = strip (if truthy (row ! j) then str_cell (row ! j) else []))"
    by (intro impI, elim conjE, rule field) assumption+
  have c4: "(k \<notin> set headers \<longrightarrow> get_or_empty (customer_info headers row_data) k = [])"
    by (intro impI) (rule customer_info_missing)
  show ?thesis
    using c1 c2 c3 c4 ex1 ex2 ex3 ex4 by (intro conjI)
qed

theorem C7_prefix_match_witness:
  "get_customers (\<lambda>s. s) [asc ''name_query'' \<mapsto> asc '' Acme'']
     (Some [CUSTOMER_SHEET_NAME \<mapsto>
        [[CStr HDR_CUSTOMER_NAME], [CStr (asc ''Bolt Ltd'')], [CStr (asc ''  ACME Corp '')],
         [CStr (asc ''Pacme'')]]])
   = Inr [[(''id'', []), (''name'', asc ''ACME Corp''), (''phone'', []), (''address'', [])]]
   \<and> is_match (\<lambda>s. s) [] (asc ''acme'') [] [] [HDR_CUSTOMER_NAME \<mapsto> asc ''Acme Corp'']
   \<and> \<not> is_match (\<lambda>s. s) [] (asc ''cme'') [] [] [HDR_CUSTOMER_NAME \<mapsto> asc ''Acme Corp'']
   \<and> get_or_empty (customer_info [HDR_CUSTOMER_NAME] [strip (asc ''  ACME Corp '')])
        HDR_CUSTOMER_NAME = asc ''ACME Corp''
   \<and> get_or_empty (customer_info [HDR_CUSTOMER_NAME] [asc ''x'']) HDR_ADDRESS = []"
proof -
  let ?sheet = "[[CStr HDR_CUSTOMER_NAME], [CStr (asc ''Bolt Ltd'')],
                 [CStr (asc ''  ACME Corp '')], [CStr (asc ''Pacme'')]]"
  let ?w = "[CUSTOMER_SHEET_NAME \<mapsto> ?sheet]"
  let ?a = "[asc ''name_query'' \<mapsto> asc '' Acme'']"
  let ?info = "[HDR_CUSTOMER_NAME \<mapsto> asc ''Acme Corp'']"
  let ?ul = "\<lambda>s::pystr. s"
  have q: "lower ?ul (strip (get_or_empty ?a (asc ''id_query''))) = []"
    "lower ?ul (strip (get_or_empty ?a (asc ''name_query''))) = asc ''acme''"
    "lower ?ul (strip (get_or_empty ?a (asc ''phone_query''))) = []"
    "lower ?ul (strip (get_or_empty ?a (asc ''address_query''))) = []"
    by (simp_all add: get_or_empty_def strip_def is_space_def lower_def lower_ascii_def asc_def)
  have ne: "asc ''acme'' \<noteq> []"
    by (simp add: asc_def)
  have s: "?w CUSTOMER_SHEET_NAME = Some ?sheet"
    by simp
  have low: "lower ?ul (asc ''Acme Corp'') = asc ''acme corp''"
    "lower ?ul (asc ''ACME Corp'') = asc ''acme corp''"
    "lower ?ul (asc ''Bolt Ltd'') = asc ''bolt ltd''"
    "lower ?ul (asc ''Pacme'') = asc ''pacme''"
    "lower ?ul [] = []"
    by (simp_all add: lower_def lower_ascii_def asc_def)
  have pre: "prefix (asc ''acme'') (asc ''acme corp'')" "\<not> prefix (asc ''cme'') (asc ''acme corp'')"
    "\<not> prefix (asc ''acme'') (asc ''bolt ltd'')" "\<not> prefix (asc ''acme'') (asc ''pacme'')"
    by (simp_all add: asc_def)
  have st: "strip (asc ''Bolt Ltd'') = asc ''Bolt Ltd''"
    "strip (asc ''  ACME Corp '') = asc ''ACME Corp''"
    "strip (asc ''Pacme'') = asc ''Pacme''"
    by (simp_all add: strip_def is_space_def asc_def)
  have v: "get_or_empty [HDR_CUSTOMER_NAME \<mapsto> x] HDR_CUSTOMER_ID = []"
    "get_or_empty [HDR_CUSTOMER_NAME \<mapsto> x] HDR_CUSTOMER_NAME = x"
    "get_or_empty [HDR_CUSTOMER_NAME \<mapsto> x] HDR_CUSTOMER_PHONE = []"
    "get_or_empty [HDR_CUSTOMER_NAME \<mapsto> x] HDR_ADDRESS = []" for x
    by (simp_all add: get_or_empty_def HDR_CUSTOMER_ID_def HDR_CUSTOMER_NAME_def
        HDR_CUSTOMER_PHONE_def HDR_ADDRESS_def)
  have m: "is_match ?ul [] (asc ''acme'') [] [] [HDR_CUSTOMER_NAME \<mapsto> x]
      \<longleftrightarrow> prefix (asc ''acme'') (lower ?ul x)" for x
    using C7_prefix_match [where ul = ?ul and iq = "[]" and nq = "asc ''acme''" and pq = "[]"
        and aq = "[]" and info = "[HDR_CUSTOMER_NAME \<mapsto> x]", THEN conjunct1] ne
    by (simp add: v)
  have m1: "is_match ?ul [] (asc ''acme'') [] [] ?info"
    by (simp only: m low pre)
  have m2: "\<not> is_match ?ul [] (asc ''cme'') [] [] ?info"
    using C7_prefix_match [where ul = ?ul and iq = "[]" and nq = "asc ''cme''" and pq = "[]"
        and aq = "[]" and info = ?info, THEN conjunct1]
    by (simp add: v low pre)
  have hs: "map str_cell (ws_row1 ?sheet) = [HDR_CUSTOMER_NAME]"
    by (simp add: ws_row1_def row_cells_def pad_def max_column_def)
  have rs: "iter_rows_min2 ?sheet =
      [[CStr (asc ''Bolt Ltd'')], [CStr (asc ''  ACME Corp '')], [CStr (asc ''Pacme'')]]"
    by (simp add: iter_rows_min2_def row_cells_def pad_def max_column_def)
  have ci: "customer_info [HDR_CUSTOMER_NAME] [x] = [HDR_CUSTOMER_NAME \<mapsto> x]" for x
    by (simp add: customer_info_def enumerate_eq_zip)
  have tr: "truthy (CStr (asc ''Bolt Ltd''))" "truthy (CStr (asc ''  ACME Corp ''))"
    "truthy (CStr (asc ''Pacme''))"
    by (simp_all add: asc_def)
  have hyp: "Some ?w = Some ?w \<and> ?w CUSTOMER_SHEET_NAME = Some ?sheet
      \<and> [] = lower ?ul (strip (get_or_empty ?a (asc ''id_query'')))
      \<and> asc ''acme'' = lower ?ul (strip (get_or_empty ?a (asc ''name_query'')))
      \<and> [] = lower ?ul (strip (get_or_empty ?a (asc ''phone_query'')))
      \<and> [] = lower ?ul (strip (get_or_empty ?a (asc ''address_query'')))
      \<and> (([] :: pystr) \<noteq> [] \<or> asc ''acme'' \<noteq> [] \<or> ([] :: pystr) \<noteq> []
           \<or> ([] :: pystr) \<noteq> [])"
    using ne by (simp only: q s simp_thms)
  have g0: "get_customers ?ul ?a (Some ?w) =
          Inr (map (\<lambda>info. [(''id'', get_or_empty info HDR_CUSTOMER_ID),
                             (''name'', get_or_empty info HDR_CUSTOMER_NAME),
                             (''phone'', get_or_empty info HDR_CUSTOMER_PHONE),
                             (''address'', get_or_empty info HDR_ADDRESS)])
                 (filter (is_match ?ul [] (asc ''acme'') [] [])
                    (map (\<lambda>row. customer_info (map str_cell (ws_row1 ?sheet))
                                   (map (\<lambda>v. strip (if truthy v then str_cell v else [])) row))
                         (iter_rows_min2 ?sheet))))"
    using C7_prefix_match [where ul = ?ul and f = "Some ?w" and w = ?w
        and customer_sheet = ?sheet and request_args = ?a and iq = "[]"
        and nq = "asc ''acme''" and pq = "[]" and aq = "[]", THEN conjunct2, THEN conjunct1]
      hyp
    by (rule mp)
  have g: "get_customers ?ul ?a (Some ?w) =
      Inr [[(''id'', []), (''name'', asc ''ACME Corp''), (''phone'', []), (''address'', [])]]"
    unfolding g0 hs rs
    by (simp only: list.map tr if_True if_False str_cell.simps st ci m low pre filter.simps v)
  have f1: "get_or_empty (customer_info [HDR_CUSTOMER_NAME] [strip (asc ''  ACME Corp '')])
        HDR_CUSTOMER_NAME = asc ''ACME Corp''"
    by (simp only: ci v st)
  have f2: "get_or_empty (customer_info [HDR_CUSTOMER_NAME] [asc ''x'']) HDR_ADDRESS = []"
    using C7_prefix_match [where k = HDR_ADDRESS and headers = "[HDR_CUSTOMER_NAME]"
        and row_data = "[asc ''x'']", THEN conjunct2, THEN conjunct2, THEN conjunct2,
        THEN conjunct1]
    by (simp add: HDR_ADDRESS_def HDR_CUSTOMER_NAME_def)
  show ?thesis
    using g m1 m2 f1 f2 by (intro conjI)
qed

section \<open>Facts about get\_goods\_data\<close>

lemma row_dict_loop_overrun:
  "n \<le> length headers \<Longrightarrow> length headers < n + length cells \<Longrightarrow>
   row_dict_loop headers (enumerate n cells) row_dict = Inl IndexError"
proof (induction cells arbitrary: n row_dict)
  case Nil
  then show ?case by simp
next
  case (Cons v cells)
  show ?case
  proof (cases "n < length headers")
    case True
    then have "row_dict_loop headers (enumerate (Suc n) cells)
        (row_dict(headers ! n \<mapsto> (if truthy v then strip (str_cell v) else []))) = Inl IndexError"
      using Cons.prems by (intro Cons.IH) simp_all
    then show ?thesis
      using True by simp
  next
    case False
    then show ?thesis by simp
  qed
qed

lemma length_row_cells: "row \<in> set ws \<Longrightarrow> length (row_cells ws row) = max_column ws"
  using length_le_max_column [of row ws] by (simp add: row_cells_def length_pad)

text \<open>
  Every goods sheet with an empty cell in its header row and at least one data row makes
  \<^verbatim>\<open>get_goods_data\<close> fail.
\<close>

lemma get_goods_data_header_gap:
  assumes "w GOODS_SHEET_NAME = Some goods_sheet"
    and "goods_sheet = header # row # rows"
    and "\<exists>v \<in> set (row_cells goods_sheet header). \<not> truthy v"
  shows "get_goods_data (Some w) = Inl IndexError"
proof -
  let ?headers = "map (\<lambda>v. strip (str_cell v)) (filter truthy (ws_row1 goods_sheet))"
  have r1: "ws_row1 goods_sheet = row_cells goods_sheet header"
    by (simp add: ws_row1_def assms(2))
  have "length (filter truthy (row_cells goods_sheet header)) < length (row_cells goods_sheet header)"
    using assms(3) by (auto intro: length_filter_less)
  moreover have "length (row_cells goods_sheet header) = max_column goods_sheet"
    by (rule length_row_cells) (simp add: assms(2))
  ultimately have h: "length ?headers < max_column goods_sheet"
    by (simp add: r1)
  have "length (row_cells goods_sheet row) = max_column goods_sheet"
    by (rule length_row_cells) (simp add: assms(2))
  with h have "row_dict_loop ?headers (enumerate 0 (row_cells goods_sheet row)) Map.empty
      = Inl IndexError"
    by (intro row_dict_loop_overrun) simp_all
  moreover have "iter_rows_min2 goods_sheet =
      row_cells goods_sheet row # map (row_cells goods_sheet) rows"
    by (simp add: iter_rows_min2_def assms(2))
  ultimately show ?thesis
    using assms(1) by (simp add: get_goods_data_def load_workbook_def wb_get_def)
qed

section \<open>Claim C9\<close>

text \<open>
  C9. The claim: the scan of a reference table never ends in an error because a row and
  the header row differ in length, a missing cell or a gap in the headers giving an empty
  string. \<^verbatim>\<open>get_customers\<close> does so (line 128). \<^verbatim>\<open>get_goods_data\<close> drops the empty
  header cells from \<^verbatim>\<open>headers\<close> and then reads \<^verbatim>\<open>headers[i]\<close> for every cell of the row:
  on a goods sheet whose second header cell is empty the handler ends with IndexError,
  as on every goods sheet with an empty header cell and a data row.
\<close>

theorem C9_goods_header_gap_fails:
  "get_goods_data (Some [GOODS_SHEET_NAME \<mapsto>
      [[CStr HDR_GOODS_NAME, CNone, CStr HDR_GOODS_STOCK],
       [CStr (asc ''rice''), CStr (asc ''5kg''), CInt 3]]])
   = Inl IndexError"
  by (simp add: get_goods_data_def load_workbook_def wb_get_def ws_row1_def iter_rows_min2_def
      row_cells_def pad_def max_column_def enumerate_eq_zip)


end
